theory Spec2Isabelle
  imports Main "HOL-Library.Monad_Syntax" "HOL-Library.Sublist" "HOL-Library.Multiset"
begin

section \<open>Strings, template literals and JavaScript values\<close>

text \<open>
  A JavaScript string is modelled by the bytes of its UTF-8 encoding (\<^typ>\<open>string\<close> is
  \<^typ>\<open>char list\<close> and a \<^typ>\<open>char\<close> is a byte). The only string operations of
  \<^verbatim>\<open>src/js/main.js\<close> are concatenation (template literals, \<^verbatim>\<open>join('')\<close>), equality
  and \<^verbatim>\<open>encodeURIComponent\<close>, and all three agree on the two representations for
  well-formed strings.

  A template literal keeps the line breaks and the indentation of the source file, so the
  models below keep them too: \<open>ind n\<close> is a line feed followed by \<open>n\<close> spaces.
\<close>

definition ind :: "nat \<Rightarrow> string" where
  "ind n = CHR 0x0A # replicate n (CHR '' '')"

definition sq :: string where
  \<comment> \<open>the apostrophe\<close>
  "sq = [CHR 0x27]"

definition bullet :: string where
  \<comment> \<open>U+2022 BULLET in UTF-8\<close>
  "bullet = [CHR 0xE2, CHR 0x80, CHR 0xA2]"

definition join :: "string list \<Rightarrow> string" where
  \<comment> \<open>\<^verbatim>\<open>Array.prototype.join('')\<close>\<close>
  "join xs = concat xs"

text \<open>
  An optional field of a JSON document (\<^verbatim>\<open>social.email\<close>, \<^verbatim>\<open>item.icon\<close>,
  \<^verbatim>\<open>links.github\<close>) is a \<^typ>\<open>string option\<close>: \<open>None\<close> when the key is missing or
  \<^verbatim>\<open>null\<close>. JavaScript tests such a field for truthiness, and the empty string is falsy.
\<close>

definition truthy :: "string option \<Rightarrow> bool" where
  "truthy v = (case v of None \<Rightarrow> False | Some s \<Rightarrow> s \<noteq> [])"

definition or_else :: "string option \<Rightarrow> string \<Rightarrow> string" where
  \<comment> \<open>\<^verbatim>\<open>v || dflt\<close> for an optional string \<open>v\<close>\<close>
  "or_else v dflt = (case v of None \<Rightarrow> dflt | Some s \<Rightarrow> if s = [] then dflt else s)"

text \<open>
  Decimal rendering of an integer, as template interpolation of a number does (for the
  integers a JavaScript number renders without an exponent, those below \<open>10\<^sup>2\<^sup>1\<close> in
  magnitude).
\<close>

definition digit_char :: "nat \<Rightarrow> char" where
  \<comment> \<open>only applied to \<open>n < 10\<close>\<close>
  "digit_char n = ''0123456789'' ! n"

fun show_nat :: "nat \<Rightarrow> string" where
  "show_nat n = (if n < 10 then [digit_char n] else show_nat (n div 10) @ [digit_char (n mod 10)])"

declare show_nat.simps [simp del]

definition show_int :: "int \<Rightarrow> string" where
  "show_int i = (if i < 0 then CHR ''-'' # show_nat (nat (- i)) else show_nat (nat i))"

subsection \<open>\<^verbatim>\<open>encodeURIComponent\<close>\<close>

text \<open>
  ECMAScript's \<^verbatim>\<open>encodeURIComponent\<close> leaves the unreserved characters
  \<^verbatim>\<open>A-Z a-z 0-9 - _ . ! ~ * ' ( )\<close> alone and replaces every other character by the
  percent-escapes of its UTF-8 bytes, with upper-case hexadecimal digits (the letters are
  the codes 65 to 90 and 97 to 122, the digits 48 to 57). On the UTF-8
  representation this is a byte-wise map. (A lone surrogate makes the built-in throw
  \<^verbatim>\<open>URIError\<close>; no UTF-8 string holds one.)
\<close>

definition uri_unreserved :: "char \<Rightarrow> bool" where
  "uri_unreserved c =
     (let n = (of_char c :: nat) in
      (65 \<le> n \<and> n \<le> 90) \<or> (97 \<le> n \<and> n \<le> 122) \<or> (48 \<le> n \<and> n \<le> 57) \<or>
      c \<in> set ''-_.!~*()'' \<or> c = CHR 0x27)"

definition hex_digit :: "nat \<Rightarrow> char" where
  \<comment> \<open>only applied to \<open>n < 16\<close>\<close>
  "hex_digit n = ''0123456789ABCDEF'' ! n"

definition percent_escape :: "char \<Rightarrow> string" where
  "percent_escape c =
     [CHR ''%'', hex_digit (of_char c div 16), hex_digit (of_char c mod 16)]"

definition encodeURIComponent :: "string \<Rightarrow> string" where
  "encodeURIComponent s =
     concat (map (\<lambda>c. if uri_unreserved c then [c] else percent_escape c) s)"

section \<open>The JSON documents\<close>

text \<open>
  The five documents, with the fields the code reads. A field interpolated into a template
  holds the text the interpolation yields; \<^verbatim>\<open>skill.level\<close> is an integer. Field names
  carry the name of their entity, since record fields share one name space.
\<close>

record about =
  about_summary :: string
  about_description :: string
  about_cta :: string

record stat =
  stat_value :: string
  stat_label :: string

record social =
  social_email :: "string option"
  social_whatsapp :: "string option"
  social_linkedin :: "string option"
  social_github :: "string option"
  social_instagram :: "string option"

record profile =
  profile_name :: string
  profile_tagline :: string
  profile_roles :: "string list"
  profile_avatar :: string
  profile_about :: about
  profile_stats :: "stat list"
  profile_cv :: string
  profile_social :: social

record skill =
  skill_name :: string
  skill_level :: int

record category =
  category_name :: string
  category_icon :: string
  category_skills :: "skill list"

record skills_doc =
  categories :: "category list"

record experience =
  exp_period :: string
  exp_role :: string
  exp_company :: string
  exp_description :: string
  exp_highlights :: "string list"

record experience_doc =
  experiences :: "experience list"

record links =
  links_github :: "string option"
  links_demo :: "string option"

record project =
  project_id :: string
  project_category :: string
  project_title :: string
  project_shortDescription :: string
  project_description :: string
  project_thumbnail :: string
  project_images :: "string list"
  project_techStack :: "string list"
  project_highlights :: "string list"
  project_year :: string
  project_links :: links

record projects_doc =
  projects :: "project list"

record item =
  item_title :: string
  item_organization :: string
  item_description :: string
  item_year :: string
  item_icon :: "string option"

record achievements_doc =
  achievements :: "item list"
  certifications :: "item list"

section \<open>The markup the renderers build\<close>

subsection \<open>Profile\<close>

definition role_separator :: string where
  \<open>role_separator = ''<span class="role-separator">'' @ bullet @ ''</span>''\<close>

definition role_tag :: "nat \<Rightarrow> nat \<Rightarrow> string \<Rightarrow> string" where
  \<comment> \<open>the template of \<^verbatim>\<open>data.roles.map((role, index) => ...)\<close>; \<open>n\<close> is \<^verbatim>\<open>data.roles.length\<close>\<close>
  \<open>role_tag n index role =
     ind 8 @ ''<span class="role-tag">'' @ role @ ''</span>'' @
     ind 8 @ (if int index < int n - 1 then role_separator else []) @
     ind 4\<close>

definition roles_markup :: "string list \<Rightarrow> string" where
  "roles_markup roles =
     join (map (\<lambda>(index, role). role_tag (length roles) index role) (enumerate 0 roles))"

definition stat_card :: "stat \<Rightarrow> string" where
  \<open>stat_card stat =
     ind 8 @ ''<div class="stat-card reveal">'' @
     ind 12 @ ''<div class="stat-value">'' @ stat_value stat @ ''</div>'' @
     ind 12 @ ''<div class="stat-label">'' @ stat_label stat @ ''</div>'' @
     ind 8 @ ''</div>'' @
     ind 4\<close>

definition stats_markup :: "stat list \<Rightarrow> string" where
  "stats_markup stats = join (map stat_card stats)"

definition push_if :: "string option \<Rightarrow> (string \<Rightarrow> string) \<Rightarrow> string list" where
  \<comment> \<open>\<^verbatim>\<open>if (v) list.push(f(v))\<close>: the elements pushed, none when \<open>v\<close> is falsy\<close>
  "push_if v f = (case v of None \<Rightarrow> [] | Some s \<Rightarrow> if s = [] then [] else [f s])"

definition email_button :: "string \<Rightarrow> string" where
  \<open>email_button email =
     ind 12 @ ''<a href="mailto:'' @ email @
       ''?subject=Portfolio Inquiry" class="contact-btn email">'' @
     ind 16 @ ''<i class="fas fa-envelope"></i>'' @
     ind 16 @ ''<span>Email Me</span>'' @
     ind 12 @ ''</a>'' @
     ind 8\<close>

definition whatsapp_message :: string where
  "whatsapp_message =
     encodeURIComponent (''Hi Atilla, I saw your portfolio and I'' @ sq @ ''d like to connect!'')"

definition whatsapp_button :: "string \<Rightarrow> string" where
  \<open>whatsapp_button whatsapp =
     ind 12 @ ''<a href="https://wa.me/'' @ whatsapp @ ''?text='' @ whatsapp_message @
       ''" target="_blank" class="contact-btn whatsapp">'' @
     ind 16 @ ''<i class="fab fa-whatsapp"></i>'' @
     ind 16 @ ''<span>WhatsApp</span>'' @
     ind 12 @ ''</a>'' @
     ind 8\<close>

definition linkedin_button :: "string \<Rightarrow> string" where
  \<open>linkedin_button linkedin =
     ind 12 @ ''<a href="'' @ linkedin @ ''" target="_blank" class="contact-btn linkedin">'' @
     ind 16 @ ''<i class="fab fa-linkedin-in"></i>'' @
     ind 16 @ ''<span>LinkedIn</span>'' @
     ind 12 @ ''</a>'' @
     ind 8\<close>

definition github_button :: "string \<Rightarrow> string" where
  \<open>github_button github =
     ind 12 @ ''<a href="'' @ github @ ''" target="_blank" class="contact-btn github">'' @
     ind 16 @ ''<i class="fab fa-github"></i>'' @
     ind 16 @ ''<span>GitHub</span>'' @
     ind 12 @ ''</a>'' @
     ind 8\<close>

definition contact_buttons :: "social \<Rightarrow> string list" where
  \<comment> \<open>the array \<^verbatim>\<open>buttons\<close> of \<^verbatim>\<open>renderContactButtons\<close> after its four pushes\<close>
  "contact_buttons s =
     push_if (social_email s) email_button @
     push_if (social_whatsapp s) whatsapp_button @
     push_if (social_linkedin s) linkedin_button @
     push_if (social_github s) github_button"

definition footer_email :: "string \<Rightarrow> string" where
  \<open>footer_email email =
     ''<a href="mailto:'' @ email @
     ''" aria-label="Email"><i class="fas fa-envelope"></i></a>''\<close>

definition footer_linkedin :: "string \<Rightarrow> string" where
  \<open>footer_linkedin linkedin =
     ''<a href="'' @ linkedin @
     ''" target="_blank" aria-label="LinkedIn"><i class="fab fa-linkedin-in"></i></a>''\<close>

definition footer_github :: "string \<Rightarrow> string" where
  \<open>footer_github github =
     ''<a href="'' @ github @
     ''" target="_blank" aria-label="GitHub"><i class="fab fa-github"></i></a>''\<close>

definition footer_instagram :: "string \<Rightarrow> string" where
  \<open>footer_instagram instagram =
     ''<a href="'' @ instagram @
     ''" target="_blank" aria-label="Instagram"><i class="fab fa-instagram"></i></a>''\<close>

definition footer_links :: "social \<Rightarrow> string list" where
  \<comment> \<open>the array \<^verbatim>\<open>links\<close> of \<^verbatim>\<open>renderFooterSocial\<close> after its four pushes\<close>
  "footer_links s =
     push_if (social_email s) footer_email @
     push_if (social_linkedin s) footer_linkedin @
     push_if (social_github s) footer_github @
     push_if (social_instagram s) footer_instagram"

subsection \<open>Skills\<close>

definition skill_item :: "skill \<Rightarrow> string" where
  \<open>skill_item skill =
     ind 20 @ ''<div class="skill-item">'' @
     ind 24 @ ''<div class="skill-info">'' @
     ind 28 @ ''<span class="skill-name">'' @ skill_name skill @ ''</span>'' @
     ind 28 @ ''<span class="skill-level">'' @ show_int (skill_level skill) @ ''%</span>'' @
     ind 24 @ ''</div>'' @
     ind 24 @ ''<div class="skill-bar">'' @
     ind 28 @ ''<div class="skill-progress" data-progress="'' @ show_int (skill_level skill) @
       ''" style="width: 0%"></div>'' @
     ind 24 @ ''</div>'' @
     ind 20 @ ''</div>'' @
     ind 16\<close>

definition skill_category :: "category \<Rightarrow> string" where
  \<open>skill_category category =
     ind 8 @ ''<div class="skill-category reveal">'' @
     ind 12 @ ''<div class="skill-category-header">'' @
     ind 16 @ ''<div class="skill-category-icon">'' @
     ind 20 @ ''<i class="fas fa-'' @ category_icon category @ ''"></i>'' @
     ind 16 @ ''</div>'' @
     ind 16 @ ''<h3 class="skill-category-name">'' @ category_name category @ ''</h3>'' @
     ind 12 @ ''</div>'' @
     ind 12 @ ''<div class="skill-list">'' @
     ind 16 @ join (map skill_item (category_skills category)) @
     ind 12 @ ''</div>'' @
     ind 8 @ ''</div>'' @
     ind 4\<close>

definition skills_markup :: "skills_doc \<Rightarrow> string" where
  "skills_markup data = join (map skill_category (categories data))"

subsection \<open>Experience\<close>

definition timeline_highlight :: "string \<Rightarrow> string" where
  \<open>timeline_highlight h = ''<li class="timeline-highlight">'' @ h @ ''</li>''\<close>

definition timeline_item :: "experience \<Rightarrow> string" where
  \<open>timeline_item exp =
     ind 8 @ ''<div class="timeline-item reveal">'' @
     ind 12 @ ''<div class="timeline-dot"></div>'' @
     ind 12 @ ''<div class="timeline-content">'' @
     ind 16 @ ''<span class="timeline-period">'' @ exp_period exp @ ''</span>'' @
     ind 16 @ ''<h3 class="timeline-role">'' @ exp_role exp @ ''</h3>'' @
     ind 16 @ ''<p class="timeline-company">'' @ exp_company exp @ ''</p>'' @
     ind 16 @ ''<p class="timeline-description">'' @ exp_description exp @ ''</p>'' @
     ind 16 @ ''<ul class="timeline-highlights">'' @
     ind 20 @ join (map timeline_highlight (exp_highlights exp)) @
     ind 16 @ ''</ul>'' @
     ind 12 @ ''</div>'' @
     ind 8 @ ''</div>'' @
     ind 4\<close>

definition experience_markup :: "experience_doc \<Rightarrow> string" where
  "experience_markup data = join (map timeline_item (experiences data))"

subsection \<open>Projects\<close>

text \<open>
  \<^verbatim>\<open>[...new Set(xs)]\<close>: a \<^verbatim>\<open>Set\<close> keeps its elements in insertion order and
  ignores the insertion of an element it already holds; spreading it lists them in that order.
\<close>

definition set_add :: "'a list \<Rightarrow> 'a \<Rightarrow> 'a list" where
  "set_add s x = (if x \<in> set s then s else s @ [x])"

definition new_Set :: "'a list \<Rightarrow> 'a list" where
  "new_Set xs = foldl set_add [] xs"

definition project_categories :: "projects_doc \<Rightarrow> string list" where
  \<comment> \<open>\<^verbatim>\<open>const categories = [...new Set(data.projects.map(p => p.category))]\<close>\<close>
  "project_categories data = new_Set (map project_category (projects data))"

definition all_button :: string where
  \<open>all_button = ''<button class="filter-btn active" data-filter="all">All</button>''\<close>

definition filter_button :: "string \<Rightarrow> string" where
  \<open>filter_button cat =
     ind 12 @ ''<button class="filter-btn" data-filter="'' @ cat @ ''">'' @ cat @ ''</button>'' @
     ind 8\<close>

definition filter_markup :: "projects_doc \<Rightarrow> string" where
  "filter_markup data =
     ind 8 @ all_button @
     ind 8 @ join (map filter_button (project_categories data)) @
     ind 4"

definition card_tech_tag :: "string \<Rightarrow> string" where
  \<open>card_tech_tag tech =
     ind 24 @ ''<span class="tech-tag">'' @ tech @ ''</span>'' @
     ind 20\<close>

definition card_tech_tags :: "project \<Rightarrow> string list" where
  \<comment> \<open>\<^verbatim>\<open>project.techStack.slice(0, 4).map(tech => ...)\<close>\<close>
  "card_tech_tags project = map card_tech_tag (take 4 (project_techStack project))"

definition card_placeholder_url :: "string \<Rightarrow> string" where
  "card_placeholder_url title =
     ''https://via.placeholder.com/400x200/1E3A5F/00D4FF?text='' @ encodeURIComponent title"

definition project_card :: "project \<Rightarrow> string" where
  \<open>project_card project =
     ind 8 @ ''<div class="project-card reveal" data-category="'' @ project_category project @
       ''" data-id="'' @ project_id project @ ''">'' @
     ind 12 @ ''<div class="project-image">'' @
     ind 16 @ ''<img src="'' @ project_thumbnail project @ ''" alt="'' @ project_title project @
       ''" onerror="this.src='' @ sq @ card_placeholder_url (project_title project) @ sq @ ''">'' @
     ind 16 @ ''<div class="project-overlay">'' @
     ind 20 @ ''<span class="project-view-btn">View Details</span>'' @
     ind 16 @ ''</div>'' @
     ind 12 @ ''</div>'' @
     ind 12 @ ''<div class="project-info">'' @
     ind 16 @ ''<span class="project-category">'' @ project_category project @ ''</span>'' @
     ind 16 @ ''<h3 class="project-title">'' @ project_title project @ ''</h3>'' @
     ind 16 @ ''<p class="project-description">'' @ project_shortDescription project @ ''</p>'' @
     ind 16 @ ''<div class="project-tech">'' @
     ind 20 @ join (card_tech_tags project) @
     ind 16 @ ''</div>'' @
     ind 12 @ ''</div>'' @
     ind 8 @ ''</div>'' @
     ind 4\<close>

definition projects_markup :: "projects_doc \<Rightarrow> string" where
  "projects_markup data = join (map project_card (projects data))"

subsection \<open>Achievements\<close>

definition achievements_placeholder :: string where
  \<open>achievements_placeholder =
     ''<p style="text-align: center; color: var(--color-text-secondary);">Achievements coming soon...</p>''\<close>

definition achievement_card :: "item \<Rightarrow> string" where
  \<open>achievement_card item =
     ind 8 @ ''<div class="achievement-card reveal">'' @
     ind 12 @ ''<div class="achievement-icon">'' @
     ind 16 @ ''<i class="fas fa-'' @ or_else (item_icon item) ''trophy'' @ ''"></i>'' @
     ind 12 @ ''</div>'' @
     ind 12 @ ''<div class="achievement-content">'' @
     ind 16 @ ''<h3 class="achievement-title">'' @ item_title item @ ''</h3>'' @
     ind 16 @ ''<p class="achievement-org">'' @ item_organization item @ ''</p>'' @
     ind 16 @ ''<p class="achievement-description">'' @ item_description item @ ''</p>'' @
     ind 16 @ ''<span class="achievement-year">'' @ item_year item @ ''</span>'' @
     ind 12 @ ''</div>'' @
     ind 8 @ ''</div>'' @
     ind 4\<close>

definition achievements_markup :: "achievements_doc \<Rightarrow> string" where
  \<comment> \<open>the string \<^verbatim>\<open>renderAchievements\<close> assigns, on either of its two paths\<close>
  "achievements_markup data =
     (let allItems = achievements data @ certifications data in
      if length allItems = 0 then achievements_placeholder
      else join (map achievement_card allItems))"

subsection \<open>The project modal\<close>

definition modal_image_src :: "project \<Rightarrow> string" where
  \<comment> \<open>\<^verbatim>\<open>project.images[0] || project.thumbnail\<close>: an empty array gives \<^verbatim>\<open>undefined\<close>\<close>
  "modal_image_src project =
     (case project_images project of
        [] \<Rightarrow> project_thumbnail project
      | i # _ \<Rightarrow> if i = [] then project_thumbnail project else i)"

definition modal_placeholder_url :: "string \<Rightarrow> string" where
  "modal_placeholder_url title =
     ''https://via.placeholder.com/800x300/1E3A5F/00D4FF?text='' @ encodeURIComponent title"

definition modal_highlight :: "string \<Rightarrow> string" where
  \<open>modal_highlight h = ''<li>'' @ h @ ''</li>''\<close>

definition modal_tech_tag :: "string \<Rightarrow> string" where
  \<open>modal_tech_tag tech = ''<span class="tech-tag">'' @ tech @ ''</span>''\<close>

definition modal_tech_tags :: "project \<Rightarrow> string list" where
  \<comment> \<open>\<^verbatim>\<open>project.techStack.map(tech => ...)\<close>\<close>
  "modal_tech_tags project = map modal_tech_tag (project_techStack project)"

definition modal_github_link :: "string \<Rightarrow> string" where
  \<open>modal_github_link github =
     ind 24 @ ''<a href="'' @ github @ ''" target="_blank" class="modal-link">'' @
     ind 28 @ ''<i class="fab fa-github"></i> GitHub'' @
     ind 24 @ ''</a>'' @
     ind 20\<close>

definition modal_demo_link :: "string \<Rightarrow> string" where
  \<open>modal_demo_link demo =
     ind 24 @ ''<a href="'' @ demo @ ''" target="_blank" class="modal-link">'' @
     ind 28 @ ''<i class="fas fa-external-link-alt"></i> Live Demo'' @
     ind 24 @ ''</a>'' @
     ind 20\<close>

definition modal_links :: "links \<Rightarrow> string" where
  \<comment> \<open>\<^verbatim>\<open>Object.values(project.links).some(link => link) ? ... : ''\<close>, for a
      \<^verbatim>\<open>links\<close> object whose keys are \<^verbatim>\<open>github\<close> and \<^verbatim>\<open>demo\<close>\<close>
  \<open>modal_links l =
     (if truthy (links_github l) \<or> truthy (links_demo l) then
        ind 16 @ ''<div class="modal-links">'' @
        ind 20 @ join (push_if (links_github l) modal_github_link) @
        ind 20 @ join (push_if (links_demo l) modal_demo_link) @
        ind 16 @ ''</div>'' @
        ind 12
      else [])\<close>

definition modal_markup :: "project \<Rightarrow> string" where
  \<open>modal_markup project =
     ind 8 @ ''<img src="'' @ modal_image_src project @ ''" alt="'' @ project_title project @
       ''" class="modal-image" onerror="this.src='' @ sq @
       modal_placeholder_url (project_title project) @ sq @ ''">'' @
     ind 8 @ ''<div class="modal-info">'' @
     ind 12 @ ''<span class="modal-category">'' @ project_category project @
       '' '' @ bullet @ '' '' @ project_year project @ ''</span>'' @
     ind 12 @ ''<h2 class="modal-title">'' @ project_title project @ ''</h2>'' @
     ind 12 @ ''<p class="modal-description">'' @ project_description project @ ''</p>'' @
     ind 12 @
     ind 12 @ ''<div class="modal-highlights">'' @
     ind 16 @ ''<h4>Key Highlights</h4>'' @
     ind 16 @ ''<ul>'' @
     ind 20 @ join (map modal_highlight (project_highlights project)) @
     ind 16 @ ''</ul>'' @
     ind 12 @ ''</div>'' @
     ind 12 @
     ind 12 @ ''<div class="modal-tech">'' @
     ind 16 @ ''<h4>Tech Stack</h4>'' @
     ind 16 @ ''<div class="modal-tech-list">'' @
     ind 20 @ join (modal_tech_tags project) @
     ind 16 @ ''</div>'' @
     ind 12 @ ''</div>'' @
     ind 12 @
     ind 12 @ modal_links (project_links project) @
     ind 8 @ ''</div>'' @
     ind 4\<close>

section \<open>The page\<close>

text \<open>
  The host page is an external collaborator: a set of elements the code looks up with
  \<^verbatim>\<open>document.getElementById\<close> (one lookup goes through \<^verbatim>\<open>modal.querySelector\<close>).
  An element carries what the code writes: its children, replaced as a whole by an
  assignment to \<^verbatim>\<open>textContent\<close> (literal text) or to \<^verbatim>\<open>innerHTML\<close> (markup the
  browser parses), its attributes and its class list.
\<close>

datatype content = Text string | Markup string

record element =
  el_content :: content
  el_attrs :: "string \<rightharpoonup> string"
  el_classes :: "string list"

type_synonym dom = "string \<rightharpoonup> element"

text \<open>
  A lookup of an element the page does not have gives \<^verbatim>\<open>null\<close>, and the property
  access that follows throws \<^verbatim>\<open>TypeError\<close>. None of the functions below catches it:
  \<open>None\<close> is that uncaught exception.
\<close>

definition update_element :: "string \<Rightarrow> (element \<Rightarrow> element) \<Rightarrow> dom \<Rightarrow> dom option" where
  "update_element i f d = (case d i of None \<Rightarrow> None | Some e \<Rightarrow> Some (d(i \<mapsto> f e)))"

text \<open>What an assignment or a class list operation does to the element itself.\<close>

definition with_text :: "string \<Rightarrow> element \<Rightarrow> element" where
  "with_text s e = e\<lparr>el_content := Text s\<rparr>"

definition with_markup :: "string \<Rightarrow> element \<Rightarrow> element" where
  "with_markup s e = e\<lparr>el_content := Markup s\<rparr>"

definition with_attr :: "string \<Rightarrow> string \<Rightarrow> element \<Rightarrow> element" where
  "with_attr a v e = e\<lparr>el_attrs := (el_attrs e)(a \<mapsto> v)\<rparr>"

definition with_class :: "string \<Rightarrow> element \<Rightarrow> element" where
  "with_class c e =
     e\<lparr>el_classes := (if c \<in> set (el_classes e) then el_classes e else el_classes e @ [c])\<rparr>"

definition without_class :: "string \<Rightarrow> element \<Rightarrow> element" where
  "without_class c e = e\<lparr>el_classes := removeAll c (el_classes e)\<rparr>"

definition set_textContent :: "string \<Rightarrow> string \<Rightarrow> dom \<Rightarrow> dom option" where
  "set_textContent i s = update_element i (with_text s)"

definition set_innerHTML :: "string \<Rightarrow> string \<Rightarrow> dom \<Rightarrow> dom option" where
  "set_innerHTML i s = update_element i (with_markup s)"

definition set_attr :: "string \<Rightarrow> string \<Rightarrow> string \<Rightarrow> dom \<Rightarrow> dom option" where
  "set_attr i a v = update_element i (with_attr a v)"

definition classList_add :: "string \<Rightarrow> string \<Rightarrow> dom \<Rightarrow> dom option" where
  "classList_add i c = update_element i (with_class c)"

definition classList_remove :: "string \<Rightarrow> string \<Rightarrow> dom \<Rightarrow> dom option" where
  "classList_remove i c = update_element i (without_class c)"

definition classList_contains :: "string \<Rightarrow> string \<Rightarrow> dom \<Rightarrow> bool option" where
  "classList_contains i c d = (case d i of None \<Rightarrow> None | Some e \<Rightarrow> Some (c \<in> set (el_classes e)))"

definition require :: "string \<Rightarrow> dom \<Rightarrow> unit option" where
  \<comment> \<open>a method call on a looked-up element that changes nothing the model tracks
      (\<^verbatim>\<open>addEventListener\<close>, \<^verbatim>\<open>querySelector\<close>)\<close>
  "require i d = (case d i of None \<Rightarrow> None | Some e \<Rightarrow> Some ())"

section \<open>The renderers\<close>

definition renderContactButtons :: "social \<Rightarrow> string \<Rightarrow> dom \<Rightarrow> dom option" where
  "renderContactButtons social cvPath d =
     set_innerHTML ''contact-buttons'' (join (contact_buttons social)) d"

definition renderFooterSocial :: "social \<Rightarrow> dom \<Rightarrow> dom option" where
  "renderFooterSocial social d =
     set_innerHTML ''footer-social'' (join (footer_links social)) d"

definition renderProfile :: "profile \<Rightarrow> dom \<Rightarrow> dom option" where
  "renderProfile data d = do {
     d \<leftarrow> set_textContent ''hero-name'' (profile_name data) d;
     d \<leftarrow> set_textContent ''hero-tagline'' (profile_tagline data) d;
     d \<leftarrow> set_innerHTML ''hero-roles'' (roles_markup (profile_roles data)) d;
     d \<leftarrow> set_attr ''hero-avatar'' ''src'' (profile_avatar data) d;
     d \<leftarrow> set_attr ''hero-avatar'' ''alt'' (profile_name data) d;
     d \<leftarrow> set_textContent ''about-summary'' (about_summary (profile_about data)) d;
     d \<leftarrow> set_textContent ''about-description'' (about_description (profile_about data)) d;
     d \<leftarrow> set_textContent ''about-cta'' (about_cta (profile_about data)) d;
     d \<leftarrow> set_innerHTML ''about-stats'' (stats_markup (profile_stats data)) d;
     d \<leftarrow> set_attr ''nav-cv-btn'' ''href'' (profile_cv data) d;
     d \<leftarrow> set_attr ''nav-cv-btn'' ''download'' ''CV_Atilla_Pramudya_Nugroho.pdf'' d;
     d \<leftarrow> renderContactButtons (profile_social data) (profile_cv data) d;
     renderFooterSocial (profile_social data) d
   }"

definition renderSkills :: "skills_doc \<Rightarrow> dom \<Rightarrow> dom option" where
  "renderSkills data d = set_innerHTML ''skills-grid'' (skills_markup data) d"

definition renderExperience :: "experience_doc \<Rightarrow> dom \<Rightarrow> dom option" where
  "renderExperience data d = set_innerHTML ''experience-timeline'' (experience_markup data) d"

definition renderProjects :: "projects_doc \<Rightarrow> dom \<Rightarrow> dom option" where
  "renderProjects data d = do {
     d \<leftarrow> set_innerHTML ''projects-filter'' (filter_markup data) d;
     set_innerHTML ''projects-grid'' (projects_markup data) d
   }"

definition renderAchievements :: "achievements_doc \<Rightarrow> dom \<Rightarrow> dom option" where
  "renderAchievements data d =
     (let allItems = achievements data @ certifications data in
      if length allItems = 0 then set_innerHTML ''achievements-grid'' achievements_placeholder d
      else set_innerHTML ''achievements-grid'' (join (map achievement_card allItems)) d)"

section \<open>Loading the data\<close>

text \<open>
  What a body parses to, as far as the code tells values apart: a falsy value
  (\<^verbatim>\<open>null\<close>, \<^verbatim>\<open>false\<close>, \<^verbatim>\<open>0\<close> or the empty string), which a test
  \<^verbatim>\<open>if (data)\<close> skips; the empty object \<^verbatim>\<open>{}\<close>, a truthy value with none of the
  fields a renderer reads; a document that has them all, with the types of the records
  above. The objects between the last two, which have some of the fields, are not modelled.
\<close>

datatype 'a json = Falsy | Empty_object | Document 'a

text \<open>
  What \<^verbatim>\<open>fetch(path)\<close> followed by \<^verbatim>\<open>response.json()\<close> can do: the fetch promise
  rejects (network failure), or it resolves to a response with a status flag \<^verbatim>\<open>ok\<close> whose
  body either parses to a value or makes \<^verbatim>\<open>json()\<close> reject.
\<close>

datatype 'a fetched = Rejected | Response bool "'a json option"

datatype js_error = TypeError | Error string | SyntaxError

definition loadJSON_try :: "string \<Rightarrow> 'a fetched \<Rightarrow> js_error + 'a json" where
  \<comment> \<open>the \<^verbatim>\<open>try\<close> block of \<^verbatim>\<open>loadJSON\<close>; \<open>Inl\<close> is what it throws\<close>
  "loadJSON_try path f =
     (case f of
        Rejected \<Rightarrow> Inl TypeError
      | Response ok body \<Rightarrow>
          if \<not> ok then Inl (Error (''Failed to load '' @ path))
          else (case body of None \<Rightarrow> Inl SyntaxError | Some data \<Rightarrow> Inr data))"

type_synonym console_line = "string \<times> js_error"

definition loadJSON :: "string \<Rightarrow> 'a fetched \<Rightarrow> console_line list \<times> 'a json option" where
  \<comment> \<open>the lines written with \<^verbatim>\<open>console.error\<close>, and the value returned: \<open>None\<close> is the
      \<^verbatim>\<open>null\<close> of the \<^verbatim>\<open>catch\<close> block\<close>
  "loadJSON path f =
     (case loadJSON_try path f of
        Inl error \<Rightarrow> ([(''Error loading '' @ path @ '':'', error)], None)
      | Inr data \<Rightarrow> ([], Some data))"

section \<open>Start-up\<close>

text \<open>
  The five loads run concurrently and each logs when it fails, so the console is a
  multiset of lines: the order of the lines of one start-up is the order in which the
  fetches fail.
\<close>

record page =
  page_dom :: dom
  body_overflow :: string
  page_console :: "console_line multiset"
  projectsData :: "projects_doc option"

record fetches =
  fetch_profile :: "profile fetched"
  fetch_skills :: "skills_doc fetched"
  fetch_experience :: "experience_doc fetched"
  fetch_projects :: "projects_doc fetched"
  fetch_achievements :: "achievements_doc fetched"

definition on_value :: "('a \<Rightarrow> dom \<Rightarrow> dom option) \<Rightarrow> 'a json \<Rightarrow> dom \<Rightarrow> dom option" where
  \<comment> \<open>a renderer called with a loaded value. On \<^verbatim>\<open>{}\<close>, as on a falsy value, each of
      the five throws \<^verbatim>\<open>TypeError\<close>: \<^verbatim>\<open>data.roles\<close>, \<^verbatim>\<open>data.categories\<close>,
      \<^verbatim>\<open>data.experiences\<close> and \<^verbatim>\<open>data.projects\<close> are \<^verbatim>\<open>undefined\<close> where
      \<^verbatim>\<open>.map\<close> is called on them, \<^verbatim>\<open>data.achievements\<close> where it is spread, and
      none of them catches it\<close>
  "on_value render v d =
     (case v of Document x \<Rightarrow> render x d | Empty_object \<Rightarrow> None | Falsy \<Rightarrow> None)"

definition render_if ::
  "'a json option \<Rightarrow> ('a \<Rightarrow> dom \<Rightarrow> dom option) \<Rightarrow> dom \<Rightarrow> dom option" where
  \<comment> \<open>\<^verbatim>\<open>if (data) render(data);\<close>\<close>
  "render_if data render d =
     (case data of
        None \<Rightarrow> Some d
      | Some Falsy \<Rightarrow> Some d
      | Some v \<Rightarrow> on_value render v d)"

text \<open>
  The four \<^verbatim>\<open>init\<close> functions attach listeners. What they do to the state at start-up
  is to dereference the elements they attach to; the listeners themselves are the
  transitions of the later sections.
\<close>

definition initNavigation :: "dom \<Rightarrow> unit option" where
  "initNavigation d = require ''nav-toggle'' d"

definition initScrollEffects :: "dom \<Rightarrow> unit option" where
  "initScrollEffects d = Some ()"

definition initModal :: "dom \<Rightarrow> unit option" where
  "initModal d = do {
     _ \<leftarrow> require ''project-modal'' d;
     _ \<leftarrow> require ''projects-grid'' d;
     _ \<leftarrow> require ''modal-close'' d;
     require ''project-modal .modal-overlay'' d
   }"

definition initFilters :: "dom \<Rightarrow> unit option" where
  "initFilters d = require ''projects-filter'' d"

definition onDOMContentLoaded :: "fetches \<Rightarrow> int \<Rightarrow> page \<Rightarrow> page option" where
  \<comment> \<open>\<open>year\<close> is \<^verbatim>\<open>new Date().getFullYear()\<close>\<close>
  "onDOMContentLoaded net year p =
     (let (log1, profile) = loadJSON ''./data/profile.json'' (fetch_profile net);
          (log2, skills) = loadJSON ''./data/skills.json'' (fetch_skills net);
          (log3, experience) = loadJSON ''./data/experience.json'' (fetch_experience net);
          (log4, projects) = loadJSON ''./data/projects.json'' (fetch_projects net);
          (log5, achievements) = loadJSON ''./data/achievements.json'' (fetch_achievements net)
      in do {
        d \<leftarrow> render_if profile renderProfile (page_dom p);
        d \<leftarrow> render_if skills renderSkills d;
        d \<leftarrow> render_if experience renderExperience d;
        d \<leftarrow> render_if projects renderProjects d;
        d \<leftarrow> render_if achievements renderAchievements d;
        _ \<leftarrow> initNavigation d;
        _ \<leftarrow> initScrollEffects d;
        _ \<leftarrow> initModal d;
        _ \<leftarrow> initFilters d;
        d \<leftarrow> set_textContent ''current-year'' (show_int year) d;
        Some (p\<lparr>page_dom := d,
                page_console := page_console p + mset (log1 @ log2 @ log3 @ log4 @ log5)\<rparr>)
      })"

section \<open>The project modal\<close>

definition openModal :: "project \<Rightarrow> page \<Rightarrow> page option" where
  "openModal project p = do {
     d \<leftarrow> set_innerHTML ''modal-body'' (modal_markup project) (page_dom p);
     d \<leftarrow> classList_add ''project-modal'' ''active'' d;
     Some (p\<lparr>page_dom := d, body_overflow := ''hidden''\<rparr>)
   }"

definition closeModal :: "page \<Rightarrow> page option" where
  "closeModal p = do {
     d \<leftarrow> classList_remove ''project-modal'' ''active'' (page_dom p);
     Some (p\<lparr>page_dom := d, body_overflow := []\<rparr>)
   }"

text \<open>
  The listeners \<^verbatim>\<open>initModal\<close> attaches. A click in the projects grid carries the
  \<^verbatim>\<open>data-id\<close> of the card \<^verbatim>\<open>e.target.closest('.project-card')\<close> finds (\<open>clicked\<close>),
  if it finds one.
  \<^verbatim>\<open>projectsData\<close> is the module variable: \<^verbatim>\<open>null\<close> until the modal's own fetch of
  the projects document has resolved, and \<^verbatim>\<open>null\<close> for good if that fetch fails.
\<close>

definition on_grid_click :: "string option \<Rightarrow> page \<Rightarrow> page option" where
  "on_grid_click clicked p =
     (case clicked of
        None \<Rightarrow> Some p
      | Some projectId \<Rightarrow>
          (case projectsData p of
             None \<Rightarrow> Some p
           | Some data \<Rightarrow>
               (case find (\<lambda>q. project_id q = projectId) (projects data) of
                  None \<Rightarrow> Some p
                | Some project \<Rightarrow> openModal project p)))"

definition on_keydown :: "string \<Rightarrow> page \<Rightarrow> page option" where
  \<comment> \<open>\<^verbatim>\<open>e.key === 'Escape' && modal.classList.contains('active')\<close>: the class list is
      read only for the Escape key\<close>
  "on_keydown key p =
     (if key = ''Escape'' then do {
        active \<leftarrow> classList_contains ''project-modal'' ''active'' (page_dom p);
        if active then closeModal p else Some p
      }
      else Some p)"

datatype event =
  GridClick "string option"
| CloseClick
| OverlayClick
| KeyDown string

fun handle :: "event \<Rightarrow> page \<Rightarrow> page option" where
  "handle (GridClick clicked) p = on_grid_click clicked p"
| "handle CloseClick p = closeModal p"
| "handle OverlayClick p = closeModal p"
| "handle (KeyDown key) p = on_keydown key p"

definition modal_open :: "page \<Rightarrow> bool" where
  "modal_open p = (classList_contains ''project-modal'' ''active'' (page_dom p) = Some True)"

definition scroll_locked :: "page \<Rightarrow> bool" where
  "scroll_locked p = (body_overflow p = ''hidden'')"

section \<open>Scroll-spy\<close>

record nav_link =
  link_href :: "string option"
  link_classes :: "string list"

record page_section =
  section_id :: string
  offsetTop :: int
  offsetHeight :: int

definition mark_links :: "string \<Rightarrow> nav_link list \<Rightarrow> nav_link list" where
  \<comment> \<open>the inner \<^verbatim>\<open>navLinks.forEach\<close>: every link loses the marker, the links whose
      \<^verbatim>\<open>href\<close> is \<^verbatim>\<open>#sectionId\<close> get it\<close>
  "mark_links sectionId ls =
     map (\<lambda>l. let l' = l\<lparr>link_classes := removeAll ''active'' (link_classes l)\<rparr>
               in if link_href l' = Some (CHR ''#'' # sectionId)
                  then l'\<lparr>link_classes := link_classes l' @ [''active'']\<rparr> else l') ls"

definition in_view :: "int \<Rightarrow> page_section \<Rightarrow> bool" where
  "in_view scrollY s =
     (let sectionTop = offsetTop s - 100; sectionHeight = offsetHeight s
      in scrollY \<ge> sectionTop \<and> scrollY < sectionTop + sectionHeight)"

definition updateActiveNav :: "int \<Rightarrow> page_section list \<Rightarrow> nav_link list \<Rightarrow> nav_link list" where
  "updateActiveNav scrollY sections ls =
     foldl (\<lambda>ls s. if in_view scrollY s then mark_links (section_id s) ls else ls) ls sections"

definition is_active :: "nav_link \<Rightarrow> bool" where
  "is_active l = (''active'' \<in> set (link_classes l))"

definition active_count :: "nav_link list \<Rightarrow> nat" where
  "active_count ls = length (filter is_active ls)"

section \<open>Specification vocabulary\<close>

text \<open>The distinct values of a list, each at the place of its first occurrence.\<close>

primrec first_seen :: "'a list \<Rightarrow> 'a list" where
  "first_seen [] = []"
| "first_seen (x # xs) = x # removeAll x (first_seen xs)"

text \<open>
  A renderer is a sequence of updates of elements. \<open>apply_writes\<close> runs such a sequence,
  and \<open>eff ws j\<close> is what the whole sequence does to the element \<open>j\<close>.
\<close>

type_synonym writes = "(string \<times> (element \<Rightarrow> element)) list"

fun apply_writes :: "writes \<Rightarrow> dom \<Rightarrow> dom option" where
  "apply_writes [] d = Some d"
| "apply_writes (w # ws) d =
     Option.bind (update_element (fst w) (snd w) d) (\<lambda>d'. apply_writes ws d')"

primrec eff :: "writes \<Rightarrow> string \<Rightarrow> element \<Rightarrow> element" where
  "eff [] j = id"
| "eff (w # ws) j = eff ws j \<circ> (if fst w = j then snd w else id)"

definition profile_writes :: "profile \<Rightarrow> writes" where
  "profile_writes data =
     [(''hero-name'', with_text (profile_name data)),
      (''hero-tagline'', with_text (profile_tagline data)),
      (''hero-roles'', with_markup (roles_markup (profile_roles data))),
      (''hero-avatar'', with_attr ''src'' (profile_avatar data)),
      (''hero-avatar'', with_attr ''alt'' (profile_name data)),
      (''about-summary'', with_text (about_summary (profile_about data))),
      (''about-description'', with_text (about_description (profile_about data))),
      (''about-cta'', with_text (about_cta (profile_about data))),
      (''about-stats'', with_markup (stats_markup (profile_stats data))),
      (''nav-cv-btn'', with_attr ''href'' (profile_cv data)),
      (''nav-cv-btn'', with_attr ''download'' ''CV_Atilla_Pramudya_Nugroho.pdf''),
      (''contact-buttons'', with_markup (join (contact_buttons (profile_social data)))),
      (''footer-social'', with_markup (join (footer_links (profile_social data))))]"

definition skills_writes :: "skills_doc \<Rightarrow> writes" where
  "skills_writes data = [(''skills-grid'', with_markup (skills_markup data))]"

definition experience_writes :: "experience_doc \<Rightarrow> writes" where
  "experience_writes data = [(''experience-timeline'', with_markup (experience_markup data))]"

definition projects_writes :: "projects_doc \<Rightarrow> writes" where
  "projects_writes data =
     [(''projects-filter'', with_markup (filter_markup data)),
      (''projects-grid'', with_markup (projects_markup data))]"

definition achievements_writes :: "achievements_doc \<Rightarrow> writes" where
  "achievements_writes data = [(''achievements-grid'', with_markup (achievements_markup data))]"

text \<open>The elements each renderer writes to.\<close>

definition profile_anchors :: "string list" where
  "profile_anchors =
     [''hero-name'', ''hero-tagline'', ''hero-roles'', ''hero-avatar'', ''about-summary'',
      ''about-description'', ''about-cta'', ''about-stats'', ''nav-cv-btn'', ''contact-buttons'',
      ''footer-social'']"

definition skills_anchors :: "string list" where
  "skills_anchors = [''skills-grid'']"

definition experience_anchors :: "string list" where
  "experience_anchors = [''experience-timeline'']"

definition projects_anchors :: "string list" where
  "projects_anchors = [''projects-filter'', ''projects-grid'']"

definition achievements_anchors :: "string list" where
  "achievements_anchors = [''achievements-grid'']"

text \<open>A click on a card whose project the loaded document holds.\<close>

definition opens :: "string option \<Rightarrow> page \<Rightarrow> bool" where
  "opens clicked p =
     (case clicked of
        None \<Rightarrow> False
      | Some projectId \<Rightarrow>
          (case projectsData p of
             None \<Rightarrow> False
           | Some data \<Rightarrow> find (\<lambda>q. project_id q = projectId) (projects data) \<noteq> None))"

text \<open>A navigation link that points to a section, and one step of the inner loop of
  \<^verbatim>\<open>updateActiveNav\<close>.\<close>

definition targets :: "string \<Rightarrow> nav_link \<Rightarrow> bool" where
  "targets sectionId l = (link_href l = Some (CHR ''#'' # sectionId))"

definition mark_link :: "string \<Rightarrow> nav_link \<Rightarrow> nav_link" where
  "mark_link sectionId l =
     (let l' = l\<lparr>link_classes := removeAll ''active'' (link_classes l)\<rparr>
      in if link_href l' = Some (CHR ''#'' # sectionId)
         then l'\<lparr>link_classes := link_classes l' @ [''active'']\<rparr> else l')"

section \<open>Example pages and documents\<close>

text \<open>A host page that has every element the code looks up, all of them empty.\<close>

definition blank_element :: element where
  "blank_element = \<lparr>el_content = Text [], el_attrs = Map.empty, el_classes = []\<rparr>"

definition shell_ids :: "string list" where
  "shell_ids =
     [''hero-name'', ''hero-tagline'', ''hero-roles'', ''hero-avatar'', ''about-summary'',
      ''about-description'', ''about-cta'', ''about-stats'', ''nav-cv-btn'', ''contact-buttons'',
      ''footer-social'', ''skills-grid'', ''experience-timeline'', ''projects-filter'',
      ''projects-grid'', ''achievements-grid'', ''nav-toggle'', ''project-modal'',
      ''modal-close'', ''project-modal .modal-overlay'', ''modal-body'', ''current-year'']"

definition shell_dom :: dom where
  "shell_dom = map_of (map (\<lambda>i. (i, blank_element)) shell_ids)"

definition shell_page :: page where
  "shell_page =
     \<lparr>page_dom = shell_dom, body_overflow = [], page_console = {#}, projectsData = None\<rparr>"

definition demo_project :: "string \<Rightarrow> string \<Rightarrow> project" where
  "demo_project i cat =
     \<lparr>project_id = i, project_category = cat, project_title = ''Title '' @ i,
      project_shortDescription = ''short'', project_description = ''long'',
      project_thumbnail = ''t.png'', project_images = [],
      project_techStack = [''a'', ''b'', ''c'', ''d'', ''e''], project_highlights = [''h''],
      project_year = ''2024'', project_links = \<lparr>links_github = None, links_demo = None\<rparr>\<rparr>"

definition demo_projects :: projects_doc where
  "demo_projects =
     \<lparr>projects = [demo_project ''p1'' ''Web'', demo_project ''p2'' ''Mobile'',
                  demo_project ''p3'' ''Web'']\<rparr>"

definition no_achievements :: achievements_doc where
  "no_achievements = \<lparr>achievements = [], certifications = []\<rparr>"

definition home_section :: page_section where
  "home_section = \<lparr>section_id = ''home'', offsetTop = 0, offsetHeight = 600\<rparr>"

definition about_section :: page_section where
  "about_section = \<lparr>section_id = ''about'', offsetTop = 600, offsetHeight = 400\<rparr>"

definition home_link :: nav_link where
  "home_link = \<lparr>link_href = Some ''#home'', link_classes = [''nav-link'']\<rparr>"

definition about_link :: nav_link where
  "about_link = \<lparr>link_href = Some ''#about'', link_classes = [''nav-link'']\<rparr>"

definition demo_profile :: profile where
  "demo_profile =
     \<lparr>profile_name = ''Ada'', profile_tagline = ''Engineer'',
      profile_roles = [''Developer'', ''Writer''], profile_avatar = ''me.png'',
      profile_about = \<lparr>about_summary = ''s'', about_description = ''d'', about_cta = ''c''\<rparr>,
      profile_stats = [\<lparr>stat_value = ''10+'', stat_label = ''Projects''\<rparr>],
      profile_cv = ''cv.pdf'',
      profile_social =
        \<lparr>social_email = Some ''ada@example.org'', social_whatsapp = None,
         social_linkedin = None, social_github = None, social_instagram = None\<rparr>\<rparr>"

definition demo_skills :: skills_doc where
  "demo_skills =
     \<lparr>categories =
        [\<lparr>category_name = ''Languages'', category_icon = ''code'',
          category_skills = [\<lparr>skill_name = ''ML'', skill_level = 72\<rparr>]\<rparr>]\<rparr>"

definition demo_experience :: experience_doc where
  "demo_experience =
     \<lparr>experiences =
        [\<lparr>exp_period = ''2024'', exp_role = ''Developer'', exp_company = ''ACME'',
          exp_description = ''Built things'', exp_highlights = [''a'', ''b'']\<rparr>]\<rparr>"

definition demo_achievements :: achievements_doc where
  "demo_achievements =
     \<lparr>achievements =
        [\<lparr>item_title = ''Prize'', item_organization = ''Org'', item_description = ''Won'',
          item_year = ''2023'', item_icon = None\<rparr>],
      certifications = []\<rparr>"

definition loaded_page :: page where
  "loaded_page = shell_page\<lparr>projectsData := Some demo_projects\<rparr>"

text \<open>
  What start-up owes a section. If its document is absent, the elements of the section are
  as they were; if it is present, they are as its renderer, run alone on the page before
  start-up, leaves them.
\<close>

definition section_outcome ::
  "'a option \<Rightarrow> ('a \<Rightarrow> dom \<Rightarrow> dom option) \<Rightarrow> string list \<Rightarrow> page \<Rightarrow> page \<Rightarrow> bool" where
  "section_outcome doc render anchors p p' =
     (case doc of
        None \<Rightarrow> (\<forall>i \<in> set anchors. page_dom p' i = page_dom p i)
      | Some data \<Rightarrow>
          (\<exists>d'. render data (page_dom p) = Some d' \<and>
                (\<forall>i \<in> set anchors. page_dom p' i = d' i)))"

definition writes_of :: "'a option \<Rightarrow> ('a \<Rightarrow> writes) \<Rightarrow> writes" where
  "writes_of doc w = (case doc of None \<Rightarrow> [] | Some data \<Rightarrow> w data)"

text \<open>
  The document in a loaded value, if it is one; and a loaded value start-up can use: the
  \<^verbatim>\<open>null\<close> of a failed load, a falsy value or a document.
\<close>

definition document_of :: "'a json option \<Rightarrow> 'a option" where
  "document_of v = (case v of Some (Document x) \<Rightarrow> Some x | _ \<Rightarrow> None)"

definition usable :: "'a json option \<Rightarrow> bool" where
  "usable v = (v \<noteq> Some Empty_object)"

text \<open>The five values as \<^verbatim>\<open>loadJSON\<close> returns them, and the lines it logs.\<close>

definition loaded_profile :: "fetches \<Rightarrow> profile json option" where
  "loaded_profile net = snd (loadJSON ''./data/profile.json'' (fetch_profile net))"

definition loaded_skills :: "fetches \<Rightarrow> skills_doc json option" where
  "loaded_skills net = snd (loadJSON ''./data/skills.json'' (fetch_skills net))"

definition loaded_experience :: "fetches \<Rightarrow> experience_doc json option" where
  "loaded_experience net = snd (loadJSON ''./data/experience.json'' (fetch_experience net))"

definition loaded_projects :: "fetches \<Rightarrow> projects_doc json option" where
  "loaded_projects net = snd (loadJSON ''./data/projects.json'' (fetch_projects net))"

definition loaded_achievements :: "fetches \<Rightarrow> achievements_doc json option" where
  "loaded_achievements net =
     snd (loadJSON ''./data/achievements.json'' (fetch_achievements net))"

definition startup_log :: "fetches \<Rightarrow> console_line list" where
  "startup_log net =
     fst (loadJSON ''./data/profile.json'' (fetch_profile net)) @
     fst (loadJSON ''./data/skills.json'' (fetch_skills net)) @
     fst (loadJSON ''./data/experience.json'' (fetch_experience net)) @
     fst (loadJSON ''./data/projects.json'' (fetch_projects net)) @
     fst (loadJSON ''./data/achievements.json'' (fetch_achievements net))"

text \<open>
  In generalized UTF-8 a surrogate code point is three bytes, \<open>ED\<close> followed by a byte
  from \<open>A0\<close> to \<open>BF\<close> and one more. No UTF-8 string holds them: a string that does
  stands for a JavaScript string with a lone surrogate, on which the built-in
  \<^verbatim>\<open>encodeURIComponent\<close> throws \<^verbatim>\<open>URIError\<close> where the function of this theory goes
  on. The renderers of the projects pass \<^verbatim>\<open>project.title\<close> to the built-in.
\<close>

fun lone_surrogate :: "string \<Rightarrow> bool" where
  "lone_surrogate (a # b # s) =
     ((of_char a = (237 :: nat) \<and> (160 :: nat) \<le> of_char b \<and> of_char b \<le> (191 :: nat)) \<or>
      lone_surrogate (b # s))"
| "lone_surrogate [a] = False"
| "lone_surrogate [] = False"

definition encodable_titles :: "projects_doc json option \<Rightarrow> bool" where
  "encodable_titles v =
     (case document_of v of
        None \<Rightarrow> True
      | Some data \<Rightarrow> list_all (\<lambda>q. \<not> lone_surrogate (project_title q)) (projects data))"

text \<open>
  A start-up in which only the profile and the achievements arrive, and one in which the
  fetch of the projects is rejected and the skills file holds \<^verbatim>\<open>{}\<close>.
\<close>

definition demo_net :: fetches where
  "demo_net =
     \<lparr>fetch_profile = Response True (Some (Document demo_profile)),
      fetch_skills = Rejected,
      fetch_experience = Response False None,
      fetch_projects = Response True None,
      fetch_achievements = Response True (Some (Document demo_achievements))\<rparr>"

definition empty_skills_net :: fetches where
  "empty_skills_net =
     \<lparr>fetch_profile = Response True (Some (Document demo_profile)),
      fetch_skills = Response True (Some Empty_object),
      fetch_experience = Response True (Some (Document demo_experience)),
      fetch_projects = Rejected,
      fetch_achievements = Response True (Some (Document demo_achievements))\<rparr>"

text \<open>
  Two experience documents: one entry with a single highlight whose text holds markup, and
  the same entry with two plain highlights.
\<close>

definition one_highlight :: experience_doc where
  \<open>one_highlight =
     \<lparr>experiences =
        [\<lparr>exp_period = ''2024'', exp_role = ''Developer'', exp_company = ''ACME'',
          exp_description = ''Built things'',
          exp_highlights = [''a</li><li class="timeline-highlight">b'']\<rparr>]\<rparr>\<close>

definition two_highlights :: experience_doc where
  "two_highlights =
     \<lparr>experiences =
        [\<lparr>exp_period = ''2024'', exp_role = ''Developer'', exp_company = ''ACME'',
          exp_description = ''Built things'', exp_highlights = [''a'', ''b'']\<rparr>]\<rparr>"

text \<open>A profile whose e-mail address holds a space.\<close>

definition spaced_social :: social where
  "spaced_social =
     \<lparr>social_email = Some ''a b@x.y'', social_whatsapp = None, social_linkedin = None,
      social_github = None, social_instagram = None\<rparr>"

text \<open>A string in which only unreserved characters and percent signs occur.\<close>

definition url_safe :: "string \<Rightarrow> bool" where
  "url_safe s = list_all (\<lambda>c. uri_unreserved c \<or> c = CHR ''%'') s"

text \<open>A page that has every element of a list of ids.\<close>

definition has_elements :: "page \<Rightarrow> string list \<Rightarrow> bool" where
  "has_elements p ids = list_all (\<lambda>i. page_dom p i \<noteq> None) ids"

text \<open>
  The markup assigned to \<^verbatim>\<open>innerHTML\<close> is read by the HTML parser, for which the
  character reference \<^verbatim>\<open>&amp;\<close> stands for the ampersand, in text and in attribute values;
  an ampersand that begins no reference stands for itself. \<open>decode_amp\<close> resolves this one
  reference. Two projects follow whose categories are the ampersand and its reference.
\<close>

fun decode_amp :: "string \<Rightarrow> string" where
  "decode_amp [] = []"
| "decode_amp (c # s) =
     (if c = CHR ''&'' \<and> take 4 s = ''amp;'' then CHR ''&'' # decode_amp (drop 4 s)
      else c # decode_amp s)"

definition amp_projects :: projects_doc where
  "amp_projects = \<lparr>projects = [demo_project ''p1'' ''&'', demo_project ''p2'' ''&amp;'']\<rparr>"

section \<open>Basic facts\<close>

lemma update_element_Some:
  "d i = Some e \<Longrightarrow> update_element i f d = Some (d(i \<mapsto> f e))"
  by (simp add: update_element_def)

lemma sublist_skip: "sublist x ys \<Longrightarrow> sublist x (p @ ys)"
  by (metis sublist_append)

lemma sublist_here: "sublist x (x @ ss)"
  by simp

lemma shell_dom_filter: "shell_dom ''projects-filter'' = Some blank_element"
  by (simp add: shell_dom_def shell_ids_def)

lemma shell_dom_grid: "shell_dom ''projects-grid'' = Some blank_element"
  by (simp add: shell_dom_def shell_ids_def)

lemma shell_dom_achievements: "shell_dom ''achievements-grid'' = Some blank_element"
  by (simp add: shell_dom_def shell_ids_def)

subsection \<open>\<^verbatim>\<open>new Set\<close> lists first occurrences\<close>

lemma filter_removeAll_absorb:
  "\<not> P x \<Longrightarrow> filter P (removeAll x ys) = filter P ys"
  by (induction ys) auto

lemma filter_snoc_removeAll:
  "filter (\<lambda>y. y \<notin> set (acc @ [x])) zs = filter (\<lambda>y. y \<notin> set acc) (removeAll x zs)"
  by (induction zs) auto

lemma foldl_set_add:
  "foldl set_add acc xs = acc @ filter (\<lambda>y. y \<notin> set acc) (first_seen xs)"
proof (induction xs arbitrary: acc)
  case Nil
  show ?case by simp
next
  case (Cons x xs)
  show ?case
  proof (cases "x \<in> set acc")
    case True
    then have "set_add acc x = acc"
      by (simp add: set_add_def)
    with True show ?thesis
      by (simp add: Cons.IH filter_removeAll_absorb)
  next
    case False
    have "filter (\<lambda>y. y \<notin> set (acc @ [x])) (first_seen xs)
          = filter (\<lambda>y. y \<notin> set acc) (removeAll x (first_seen xs))"
      by (rule filter_snoc_removeAll)
    moreover from False have "set_add acc x = acc @ [x]"
      by (simp add: set_add_def)
    ultimately show ?thesis
      using False by (simp add: Cons.IH)
  qed
qed

lemma new_Set_first_seen: "new_Set xs = first_seen xs"
  by (simp add: new_Set_def foldl_set_add)

lemma set_first_seen: "set (first_seen xs) = set xs"
  by (induction xs) auto

lemma distinct_first_seen: "distinct (first_seen xs)"
  by (induction xs) (auto simp: distinct_removeAll)

section \<open>Renderers as write sequences\<close>

lemma update_element_total:
  "update_element i f d = (if d i = None then None else Some (d(i := map_option f (d i))))"
  by (auto simp: update_element_def split: option.splits)

lemma apply_writes_closed:
  "apply_writes ws d =
     (if \<forall>i \<in> fst ` set ws. d i \<noteq> None then Some (\<lambda>j. map_option (eff ws j) (d j)) else None)"
proof (induction ws arbitrary: d)
  case Nil
  show ?case by (simp add: option.map_id0 option.map_ident)
next
  case (Cons w ws)
  show ?case
  proof (cases "d (fst w)")
    case None
    then show ?thesis by (simp add: update_element_total)
  next
    case (Some e)
    let ?d1 = "d(fst w := map_option (snd w) (d (fst w)))"
    have 1: "(\<forall>i \<in> fst ` set ws. ?d1 i \<noteq> None) = (\<forall>i \<in> fst ` set ws. d i \<noteq> None)"
      using Some by auto
    have 2: "(\<lambda>j. map_option (eff ws j) (?d1 j)) = (\<lambda>j. map_option (eff (w # ws) j) (d j))"
      using Some by (auto simp: fun_eq_iff option.map_comp)
    have "apply_writes (w # ws) d = apply_writes ws ?d1"
      using Some by (simp add: update_element_total)
    also have "\<dots> = (if \<forall>i \<in> fst ` set ws. d i \<noteq> None
                       then Some (\<lambda>j. map_option (eff (w # ws) j) (d j)) else None)"
      unfolding Cons.IH 1 2 ..
    finally show ?thesis using Some by simp
  qed
qed

lemma apply_writes_Nil_fun: "apply_writes [] = Some"
  by (simp add: fun_eq_iff)

lemma apply_writes_Cons_fun:
  "apply_writes (w # ws) = (\<lambda>d. Option.bind (update_element (fst w) (snd w) d) (apply_writes ws))"
  by (simp add: fun_eq_iff)

lemmas writes_unfold = apply_writes_Nil_fun apply_writes_Cons_fun

lemma renderProfile_writes: "renderProfile data d = apply_writes (profile_writes data) d"
  by (simp add: renderProfile_def renderContactButtons_def renderFooterSocial_def
      set_textContent_def set_innerHTML_def set_attr_def profile_writes_def writes_unfold)

lemma renderSkills_writes: "renderSkills data d = apply_writes (skills_writes data) d"
  by (simp add: renderSkills_def set_innerHTML_def skills_writes_def writes_unfold)

lemma renderExperience_writes: "renderExperience data d = apply_writes (experience_writes data) d"
  by (simp add: renderExperience_def set_innerHTML_def experience_writes_def writes_unfold)

lemma renderProjects_writes: "renderProjects data d = apply_writes (projects_writes data) d"
  by (simp add: renderProjects_def set_innerHTML_def projects_writes_def writes_unfold)

lemma renderAchievements_writes:
  "renderAchievements data d = apply_writes (achievements_writes data) d"
  by (simp add: renderAchievements_def achievements_markup_def set_innerHTML_def
      achievements_writes_def writes_unfold Let_def)

lemma eff_Nil_apply: "eff [] j e = e"
  by simp

lemma eff_Cons_apply: "eff (w # ws) j e = eff ws j (if fst w = j then snd w e else e)"
  by simp

lemmas eff_apply = eff_Nil_apply eff_Cons_apply

lemmas with_defs = with_text_def with_markup_def with_attr_def

lemma eff_frame: "j \<notin> fst ` set ws \<Longrightarrow> eff ws j = id"
  by (induction ws) auto

lemma ids_profile: "fst ` set (profile_writes data) = set profile_anchors"
  by (simp add: profile_writes_def profile_anchors_def)

lemma eff_profile_at:
  "eff (profile_writes data) ''hero-name'' = with_text (profile_name data)"
  "eff (profile_writes data) ''hero-tagline'' = with_text (profile_tagline data)"
  "eff (profile_writes data) ''hero-roles'' = with_markup (roles_markup (profile_roles data))"
  "eff (profile_writes data) ''hero-avatar'' =
     with_attr ''alt'' (profile_name data) \<circ> with_attr ''src'' (profile_avatar data)"
  "eff (profile_writes data) ''about-summary'' = with_text (about_summary (profile_about data))"
  "eff (profile_writes data) ''about-description'' =
     with_text (about_description (profile_about data))"
  "eff (profile_writes data) ''about-cta'' = with_text (about_cta (profile_about data))"
  "eff (profile_writes data) ''about-stats'' = with_markup (stats_markup (profile_stats data))"
  "eff (profile_writes data) ''nav-cv-btn'' =
     with_attr ''download'' ''CV_Atilla_Pramudya_Nugroho.pdf'' \<circ> with_attr ''href'' (profile_cv data)"
  "eff (profile_writes data) ''contact-buttons'' =
     with_markup (join (contact_buttons (profile_social data)))"
  "eff (profile_writes data) ''footer-social'' =
     with_markup (join (footer_links (profile_social data)))"
  by (simp_all add: profile_writes_def)

lemma profile_anchors_cases:
  "j \<in> set profile_anchors \<Longrightarrow>
     j = ''hero-name'' \<or> j = ''hero-tagline'' \<or> j = ''hero-roles'' \<or> j = ''hero-avatar'' \<or>
     j = ''about-summary'' \<or> j = ''about-description'' \<or> j = ''about-cta'' \<or>
     j = ''about-stats'' \<or> j = ''nav-cv-btn'' \<or> j = ''contact-buttons'' \<or>
     j = ''footer-social''"
  by (simp add: profile_anchors_def)

lemma eff_profile_idem:
  "eff (profile_writes data) j (eff (profile_writes data) j e) = eff (profile_writes data) j e"
proof (cases "j \<in> set profile_anchors")
  case False
  then show ?thesis
    by (simp add: eff_frame ids_profile)
next
  case True
  from profile_anchors_cases [OF this] show ?thesis
    by (elim disjE) (simp_all add: eff_profile_at with_defs)
qed

lemma apply_writes_append_fun:
  "apply_writes (ws @ vs) = (\<lambda>d. Option.bind (apply_writes ws d) (apply_writes vs))"
proof (induction ws)
  case Nil
  show ?case by (simp add: fun_eq_iff)
next
  case (Cons w ws)
  show ?case
    unfolding append_Cons apply_writes_Cons_fun [of w "ws @ vs"] Cons.IH
    by (simp add: fun_eq_iff)
qed

lemma apply_writes_append:
  "apply_writes (ws @ vs) d = Option.bind (apply_writes ws d) (apply_writes vs)"
  by (simp add: apply_writes_append_fun)

lemma eff_append: "eff (ws @ vs) j = eff vs j \<circ> eff ws j"
  by (induction ws) (simp_all add: fun_eq_iff)

lemma apply_writes_idem:
  assumes "\<And>j e. eff ws j (eff ws j e) = eff ws j e"
  shows "Option.bind (apply_writes ws d) (apply_writes ws) = apply_writes ws d"
proof (cases "\<forall>i \<in> fst ` set ws. d i \<noteq> None")
  case False
  then have "apply_writes ws d = None"
    by (simp only: apply_writes_closed if_False)
  then show ?thesis by simp
next
  case True
  let ?D = "\<lambda>j. map_option (eff ws j) (d j)"
  have present: "\<forall>i \<in> fst ` set ws. ?D i \<noteq> None"
    using True by simp
  have again: "(\<lambda>j. map_option (eff ws j) (?D j)) = ?D"
    by (simp add: fun_eq_iff option.map_comp o_def assms)
  have first: "apply_writes ws d = Some ?D"
    unfolding apply_writes_closed [of ws d] using True by (rule if_P)
  have "apply_writes ws ?D = Some (\<lambda>j. map_option (eff ws j) (?D j))"
    unfolding apply_writes_closed [of ws ?D] using present by (rule if_P)
  then have "apply_writes ws ?D = Some ?D"
    unfolding again .
  with first show ?thesis
    by simp
qed

lemma eff_single_markup_idem:
  "eff [(i, with_markup s)] j (eff [(i, with_markup s)] j e) = eff [(i, with_markup s)] j e"
  by (simp add: with_defs)

lemma eff_projects_idem:
  "eff (projects_writes data) j (eff (projects_writes data) j e) = eff (projects_writes data) j e"
  by (simp add: projects_writes_def with_defs)

lemma renderProfile_fun: "renderProfile data = apply_writes (profile_writes data)"
  by (simp add: fun_eq_iff renderProfile_writes)
lemma renderSkills_fun: "renderSkills data = apply_writes (skills_writes data)"
  by (simp add: fun_eq_iff renderSkills_writes)
lemma renderExperience_fun: "renderExperience data = apply_writes (experience_writes data)"
  by (simp add: fun_eq_iff renderExperience_writes)
lemma renderProjects_fun: "renderProjects data = apply_writes (projects_writes data)"
  by (simp add: fun_eq_iff renderProjects_writes)
lemma renderAchievements_fun: "renderAchievements data = apply_writes (achievements_writes data)"
  by (simp add: fun_eq_iff renderAchievements_writes)

lemmas render_fun = renderProfile_fun renderSkills_fun renderExperience_fun renderProjects_fun
  renderAchievements_fun

lemma ids_skills: "fst ` set (skills_writes data) = set skills_anchors"
  by (simp add: skills_writes_def skills_anchors_def)
lemma ids_experience: "fst ` set (experience_writes data) = set experience_anchors"
  by (simp add: experience_writes_def experience_anchors_def)
lemma ids_projects: "fst ` set (projects_writes data) = set projects_anchors"
  by (simp add: projects_writes_def projects_anchors_def)
lemma ids_achievements: "fst ` set (achievements_writes data) = set achievements_anchors"
  by (simp add: achievements_writes_def achievements_anchors_def)

lemmas ids_writes = ids_profile ids_skills ids_experience ids_projects ids_achievements

lemma anchors_in_shell:
  "set profile_anchors \<subseteq> set shell_ids" "set skills_anchors \<subseteq> set shell_ids"
  "set experience_anchors \<subseteq> set shell_ids" "set projects_anchors \<subseteq> set shell_ids"
  "set achievements_anchors \<subseteq> set shell_ids"
  by (simp_all add: profile_anchors_def skills_anchors_def experience_anchors_def
      projects_anchors_def achievements_anchors_def shell_ids_def)

section \<open>The filter buttons\<close>

lemma renderProjects_Some:
  assumes "d ''projects-filter'' = Some e1" and "d ''projects-grid'' = Some e2"
  shows "renderProjects data d =
           Some (d(''projects-filter'' \<mapsto> e1\<lparr>el_content := Markup (filter_markup data)\<rparr>,
                   ''projects-grid'' \<mapsto> e2\<lparr>el_content := Markup (projects_markup data)\<rparr>))"
  using assms by (simp add: renderProjects_def set_innerHTML_def update_element_def with_markup_def)

lemma filter_button_inj: "filter_button a = filter_button b \<Longrightarrow> a = b"
proof -
  assume e: "filter_button a = filter_button b"
  then have "length (filter_button a) = length (filter_button b)"
    by simp
  then have "length a = length b"
    by (simp add: filter_button_def)
  with e show "a = b"
    by (simp add: filter_button_def)
qed

lemma distinct_filter_buttons: "distinct cats \<Longrightarrow> distinct (map filter_button cats)"
  by (simp add: distinct_map inj_on_def) (blast dest: filter_button_inj)

lemma filter_buttons_literal:
  \<open>join (map filter_button cats) =
     concat (map (\<lambda>cat. ind 12 @ ''<button class="filter-btn" data-filter="'' @ cat @ ''">'' @
                          cat @ ''</button>'' @ ind 8) cats)\<close>
  by (induction cats) (simp_all add: join_def filter_button_def)

text \<open>
  Claim C3 as stated fails. The categories are compared as strings and interpolated
  unescaped, so the ampersand and its character reference are two categories with a
  button each, and the parser reads the second button as a copy of the first: the filter
  shows the same category button twice.
\<close>

theorem ampersand_category_twice:
  \<open>project_categories amp_projects = [''&'', ''&amp;''] \<and>
   renderProjects amp_projects shell_dom =
     Some (shell_dom
       (''projects-filter'' \<mapsto> with_markup (filter_markup amp_projects) blank_element,
        ''projects-grid'' \<mapsto> with_markup (projects_markup amp_projects) blank_element)) \<and>
   filter_markup amp_projects =
     ind 8 @ ''<button class="filter-btn active" data-filter="all">All</button>'' @
     ind 8 @
       ind 12 @ ''<button class="filter-btn" data-filter="&">&</button>'' @ ind 8 @
       ind 12 @ ''<button class="filter-btn" data-filter="&amp;">&amp;</button>'' @ ind 8 @
     ind 4 \<and>
   decode_amp ''<button class="filter-btn" data-filter="&amp;">&amp;</button>'' =
     ''<button class="filter-btn" data-filter="&">&</button>''\<close>
proof -
  have c: "project_categories amp_projects = [''&'', ''&amp;'']"
    by (simp add: project_categories_def amp_projects_def demo_project_def new_Set_first_seen)
  have "renderProjects amp_projects shell_dom =
     Some (shell_dom
       (''projects-filter'' \<mapsto> with_markup (filter_markup amp_projects) blank_element,
        ''projects-grid'' \<mapsto> with_markup (projects_markup amp_projects) blank_element))"
    by (simp add: renderProjects_Some [OF shell_dom_filter shell_dom_grid] with_markup_def)
  moreover have \<open>decode_amp ''<button class="filter-btn" data-filter="&amp;">&amp;</button>'' =
     ''<button class="filter-btn" data-filter="&">&</button>''\<close>
    by simp
  ultimately show ?thesis
    using c by (simp add: filter_markup_def all_button_def filter_button_def join_def)
qed

text \<open>
  Claim C3, amended. On a page that has the two projects containers, \<^verbatim>\<open>renderProjects\<close>
  writes into the filter container the "All" button followed by one button for each
  distinct category string of the projects, in the order in which the strings first
  occur; a button holds its category, unescaped, as its \<^verbatim>\<open>data-filter\<close> value and as
  its label, no category string has two buttons and no two buttons have the same markup.
  For the categories Web, Mobile, Web the buttons are All, Web, Mobile.
\<close>

theorem filter_buttons_first_seen:
  assumes "d ''projects-filter'' = Some e1" and "d ''projects-grid'' = Some e2"
  shows \<open>\<exists>d' cats.
           renderProjects data d = Some d' \<and>
           cats = first_seen (map project_category (projects data)) \<and>
           map_option el_content (d' ''projects-filter'') =
             Some (Markup (ind 8 @ all_button @ ind 8 @ join (map filter_button cats) @ ind 4)) \<and>
           map_option el_content (d' ''projects-filter'') =
             Some (Markup
               (ind 8 @ ''<button class="filter-btn active" data-filter="all">All</button>'' @
                ind 8 @
                concat (map (\<lambda>cat. ind 12 @ ''<button class="filter-btn" data-filter="'' @ cat @
                                     ''">'' @ cat @ ''</button>'' @ ind 8) cats) @
                ind 4)) \<and>
           distinct cats \<and>
           set cats = project_category ` set (projects data) \<and>
           distinct (map filter_button cats) \<and>
           (map project_category (projects data) = [''Web'', ''Mobile'', ''Web''] \<longrightarrow>
              map_option el_content (d' ''projects-filter'') =
                Some (Markup (ind 8 @ all_button @ ind 8 @
                              filter_button ''Web'' @ filter_button ''Mobile'' @ ind 4)) \<and>
              map_option el_content (d' ''projects-filter'') =
                Some (Markup
                  (ind 8 @ ''<button class="filter-btn active" data-filter="all">All</button>'' @
                   ind 8 @
                     ind 12 @ ''<button class="filter-btn" data-filter="Web">Web</button>'' @
                     ind 8 @
                     ind 12 @ ''<button class="filter-btn" data-filter="Mobile">Mobile</button>'' @
                     ind 8 @
                   ind 4)))\<close>
proof -
  let ?cats = "first_seen (map project_category (projects data))"
  have m: "filter_markup data = ind 8 @ all_button @ ind 8 @ join (map filter_button ?cats) @ ind 4"
    by (simp add: filter_markup_def project_categories_def new_Set_first_seen)
  have l: \<open>ind 8 @ all_button @ ind 8 @ join (map filter_button ?cats) @ ind 4 =
     ind 8 @ ''<button class="filter-btn active" data-filter="all">All</button>'' @
     ind 8 @
     concat (map (\<lambda>cat. ind 12 @ ''<button class="filter-btn" data-filter="'' @ cat @
                          ''">'' @ cat @ ''</button>'' @ ind 8) ?cats) @
     ind 4\<close>
    unfolding filter_buttons_literal by (simp add: all_button_def)
  have s: "set ?cats = project_category ` set (projects data)"
    by (simp add: set_first_seen)
  have dc: "distinct ?cats"
    by (rule distinct_first_seen)
  have w: "map project_category (projects data) = [''Web'', ''Mobile'', ''Web''] \<Longrightarrow>
             ?cats = [''Web'', ''Mobile'']"
    by simp
  have w1: "map project_category (projects data) = [''Web'', ''Mobile'', ''Web''] \<Longrightarrow>
     ind 8 @ all_button @ ind 8 @ join (map filter_button ?cats) @ ind 4 =
     ind 8 @ all_button @ ind 8 @ filter_button ''Web'' @ filter_button ''Mobile'' @ ind 4"
    by (simp only: w) (simp add: join_def)
  have w2: \<open>map project_category (projects data) = [''Web'', ''Mobile'', ''Web''] \<Longrightarrow>
     ind 8 @ all_button @ ind 8 @ join (map filter_button ?cats) @ ind 4 =
     ind 8 @ ''<button class="filter-btn active" data-filter="all">All</button>'' @
     ind 8 @
       ind 12 @ ''<button class="filter-btn" data-filter="Web">Web</button>'' @
       ind 8 @
       ind 12 @ ''<button class="filter-btn" data-filter="Mobile">Mobile</button>'' @
       ind 8 @
     ind 4\<close>
    by (simp only: w) (simp add: join_def all_button_def filter_button_def)
  have r: "map_option el_content
             ((d(''projects-filter'' \<mapsto> e1\<lparr>el_content := Markup (filter_markup data)\<rparr>,
                 ''projects-grid'' \<mapsto> e2\<lparr>el_content := Markup (projects_markup data)\<rparr>))
                ''projects-filter'') =
           Some (Markup (ind 8 @ all_button @ ind 8 @ join (map filter_button ?cats) @ ind 4))"
    by (simp add: m)
  show ?thesis
    unfolding renderProjects_Some [OF assms]
    apply (intro exI conjI impI)
             apply (rule refl)
            apply (rule refl)
           apply (rule r)
          apply (simp only: r l)
         apply (rule dc)
        apply (rule s)
       apply (rule distinct_filter_buttons [OF dc])
      apply (drule w1, simp only: r)
     apply (drule w2, simp only: r)
    done
qed

theorem filter_buttons_first_seen_witness:
  \<open>shell_dom ''projects-filter'' = Some blank_element \<and>
   shell_dom ''projects-grid'' = Some blank_element \<and>
   map project_category (projects demo_projects) = [''Web'', ''Mobile'', ''Web''] \<and>
   (\<exists>d'. renderProjects demo_projects shell_dom = Some d' \<and>
      map_option el_content (d' ''projects-filter'') =
        Some (Markup
          (ind 8 @ ''<button class="filter-btn active" data-filter="all">All</button>'' @
           ind 8 @
             ind 12 @ ''<button class="filter-btn" data-filter="Web">Web</button>'' @
             ind 8 @
             ind 12 @ ''<button class="filter-btn" data-filter="Mobile">Mobile</button>'' @
             ind 8 @
           ind 4)))\<close>
proof -
  have c: "map project_category (projects demo_projects) = [''Web'', ''Mobile'', ''Web'']"
    by (simp add: demo_projects_def demo_project_def)
  show ?thesis
    using filter_buttons_first_seen [OF shell_dom_filter shell_dom_grid, of demo_projects]
      shell_dom_filter shell_dom_grid c
    by blast
qed

section \<open>A click before the projects are loaded\<close>

text \<open>
  Claim C6. While \<^verbatim>\<open>projectsData\<close> is still \<^verbatim>\<open>null\<close>, a click in the projects grid,
  on a card or not, raises nothing and leaves the whole page state as it was: the modal
  stays closed.
\<close>

theorem click_before_load_is_noop:
  "projectsData p = None \<Longrightarrow> handle (GridClick clicked) p = Some p"
  by (simp add: on_grid_click_def split: option.splits)

theorem click_before_load_is_noop_witness:
  "projectsData shell_page = None \<and>
   handle (GridClick (Some ''p1'')) shell_page = Some shell_page"
  using click_before_load_is_noop [of shell_page "Some ''p1''"]
  by (simp add: shell_page_def)

section \<open>No achievements yet\<close>

text \<open>
  Claim C10. When the achievements list and the certifications list are both empty,
  \<^verbatim>\<open>renderAchievements\<close> assigns the fixed placeholder paragraph to its container: the
  paragraph reads "Achievements coming soon..." and holds no achievement card.
\<close>

theorem empty_achievements_placeholder:
  assumes "achievements data = []" and "certifications data = []"
  shows "renderAchievements data d =
           set_innerHTML ''achievements-grid'' achievements_placeholder d \<and>
         (\<forall>e. d ''achievements-grid'' = Some e \<longrightarrow>
            renderAchievements data d =
              Some (d(''achievements-grid'' \<mapsto>
                      e\<lparr>el_content := Markup achievements_placeholder\<rparr>))) \<and>
         sublist ''Achievements coming soon...'' achievements_placeholder \<and>
         \<not> sublist ''achievement-card'' achievements_placeholder"
proof -
  have r: "renderAchievements data d =
             set_innerHTML ''achievements-grid'' achievements_placeholder d"
    using assms by (simp add: renderAchievements_def)
  have s: "sublist ''Achievements coming soon...'' achievements_placeholder"
    unfolding achievements_placeholder_def by code_simp
  have n: "\<not> sublist ''achievement-card'' achievements_placeholder"
    unfolding achievements_placeholder_def by code_simp
  show ?thesis
    using r s n by (simp add: set_innerHTML_def update_element_Some with_markup_def)
qed

theorem empty_achievements_placeholder_witness:
  "achievements no_achievements = [] \<and> certifications no_achievements = [] \<and>
   renderAchievements no_achievements shell_dom =
     Some (shell_dom(''achievements-grid'' \<mapsto>
             blank_element\<lparr>el_content := Markup achievements_placeholder\<rparr>))"
proof -
  have a: "achievements no_achievements = []" and c: "certifications no_achievements = []"
    by (simp_all add: no_achievements_def)
  show ?thesis
    using empty_achievements_placeholder [OF a c, of shell_dom] a c shell_dom_achievements
    by (simp add: set_innerHTML_def update_element_Some with_markup_def)
qed

section \<open>Rendering twice\<close>

text \<open>
  Claim C4. Each of the five renderers, run a second time with the same document on the
  page the first run produced, leaves that page as it is: an assignment replaces what the
  element held. On a page that has every element the renderers look up, each of them
  returns.
\<close>

theorem renderers_idempotent:
  "Option.bind (renderProfile a d) (renderProfile a) = renderProfile a d \<and>
   Option.bind (renderSkills b d) (renderSkills b) = renderSkills b d \<and>
   Option.bind (renderExperience c d) (renderExperience c) = renderExperience c d \<and>
   Option.bind (renderProjects f d) (renderProjects f) = renderProjects f d \<and>
   Option.bind (renderAchievements g d) (renderAchievements g) = renderAchievements g d \<and>
   ((\<forall>i \<in> set shell_ids. d i \<noteq> None) \<longrightarrow>
      renderProfile a d \<noteq> None \<and> renderSkills b d \<noteq> None \<and> renderExperience c d \<noteq> None \<and>
      renderProjects f d \<noteq> None \<and> renderAchievements g d \<noteq> None)"
proof -
  have 1: "Option.bind (renderProfile a d) (renderProfile a) = renderProfile a d"
    unfolding renderProfile_fun by (rule apply_writes_idem) (rule eff_profile_idem)
  have 2: "Option.bind (renderSkills b d) (renderSkills b) = renderSkills b d"
    unfolding renderSkills_fun skills_writes_def
    by (rule apply_writes_idem) (rule eff_single_markup_idem)
  have 3: "Option.bind (renderExperience c d) (renderExperience c) = renderExperience c d"
    unfolding renderExperience_fun experience_writes_def
    by (rule apply_writes_idem) (rule eff_single_markup_idem)
  have 4: "Option.bind (renderProjects f d) (renderProjects f) = renderProjects f d"
    unfolding renderProjects_fun by (rule apply_writes_idem) (rule eff_projects_idem)
  have 5: "Option.bind (renderAchievements g d) (renderAchievements g) = renderAchievements g d"
    unfolding renderAchievements_fun achievements_writes_def
    by (rule apply_writes_idem) (rule eff_single_markup_idem)
  have 6: "renderProfile a d \<noteq> None \<and> renderSkills b d \<noteq> None \<and> renderExperience c d \<noteq> None \<and>
      renderProjects f d \<noteq> None \<and> renderAchievements g d \<noteq> None"
    if "\<forall>i \<in> set shell_ids. d i \<noteq> None"
    using that anchors_in_shell
    by (simp add: render_fun apply_writes_closed ids_writes subset_iff)
  from 1 2 3 4 5 6 show ?thesis by blast
qed
theorem renderers_idempotent_witness:
  "list_all (\<lambda>i. shell_dom i \<noteq> None) shell_ids \<and>
   renderSkills demo_skills shell_dom \<noteq> None \<and>
   renderAchievements demo_achievements shell_dom \<noteq> None \<and>
   Option.bind (renderSkills demo_skills shell_dom) (renderSkills demo_skills) =
     renderSkills demo_skills shell_dom"
proof -
  have "\<forall>i \<in> set shell_ids. shell_dom i \<noteq> None"
    by (simp add: shell_dom_def shell_ids_def)
  with renderers_idempotent [of demo_profile shell_dom demo_skills demo_experience
      demo_projects demo_achievements]
  show ?thesis unfolding list_all_iff by blast
qed

section \<open>The modal and the scroll lock\<close>

lemma openModal_effect:
  assumes "page_dom p ''project-modal'' = Some m" and "page_dom p ''modal-body'' = Some b"
  shows "\<exists>p'. openModal project p = Some p' \<and> modal_open p' \<and> scroll_locked p'"
  using assms
  by (simp add: openModal_def set_innerHTML_def classList_add_def update_element_def
      with_class_def modal_open_def scroll_locked_def classList_contains_def)

lemma closeModal_effect:
  assumes "page_dom p ''project-modal'' = Some m"
  shows "\<exists>p'. closeModal p = Some p' \<and> \<not> modal_open p' \<and> \<not> scroll_locked p'"
  using assms
  by (simp add: closeModal_def classList_remove_def update_element_def without_class_def
      modal_open_def scroll_locked_def classList_contains_def)

lemma on_keydown_effect:
  assumes "page_dom p ''project-modal'' = Some m"
  shows "on_keydown key p = (if key = ''Escape'' \<and> modal_open p then closeModal p else Some p)"
  using assms
  by (simp add: on_keydown_def classList_contains_def modal_open_def)

lemma on_grid_click_effect:
  "on_grid_click clicked p =
     (if opens clicked p
      then openModal (the (find (\<lambda>q. project_id q = the clicked)
                            (projects (the (projectsData p))))) p
      else Some p)"
  by (simp add: on_grid_click_def opens_def split: option.splits)

text \<open>
  Claim C7. On a page that has the modal and its body, every event of the modal returns,
  and it keeps the invariant that the modal is open exactly when background scrolling is
  locked. A click on the card of a loaded project opens the modal and locks scrolling; a
  click on the close control, a click on the overlay and the Escape key while the modal is
  open close it and unlock scrolling; every other click or key changes nothing.
\<close>

theorem modal_scroll_lock:
  assumes "page_dom p ''project-modal'' = Some m" and "page_dom p ''modal-body'' = Some b"
  shows "\<exists>p'. handle ev p = Some p' \<and>
           ((modal_open p \<longleftrightarrow> scroll_locked p) \<longrightarrow> (modal_open p' \<longleftrightarrow> scroll_locked p')) \<and>
           (case ev of
              GridClick clicked \<Rightarrow>
                if opens clicked p then modal_open p' \<and> scroll_locked p' else p' = p
            | CloseClick \<Rightarrow> \<not> modal_open p' \<and> \<not> scroll_locked p'
            | OverlayClick \<Rightarrow> \<not> modal_open p' \<and> \<not> scroll_locked p'
            | KeyDown key \<Rightarrow>
                if key = ''Escape'' \<and> modal_open p
                then \<not> modal_open p' \<and> \<not> scroll_locked p' else p' = p)"
proof -
  obtain pc where pc: "closeModal p = Some pc" "\<not> modal_open pc" "\<not> scroll_locked pc"
    using closeModal_effect [OF assms(1)] by blast
  show ?thesis
  proof (cases ev)
    case (GridClick clicked)
    show ?thesis
    proof (cases "opens clicked p")
      case True
      let ?project = "the (find (\<lambda>q. project_id q = the clicked)
                            (projects (the (projectsData p))))"
      obtain po where "openModal ?project p = Some po" "modal_open po" "scroll_locked po"
        using openModal_effect [OF assms] by blast
      with GridClick True show ?thesis
        by (simp add: on_grid_click_effect)
    next
      case False
      with GridClick show ?thesis
        by (simp add: on_grid_click_effect)
    qed
  next
    case CloseClick
    with pc show ?thesis by simp
  next
    case OverlayClick
    with pc show ?thesis by simp
  next
    case (KeyDown key)
    show ?thesis
    proof (cases "key = ''Escape''")
      case True
      note esc = this
      show ?thesis
      proof (cases "modal_open p")
        case True
        with KeyDown esc pc show ?thesis
          by (simp add: on_keydown_effect [OF assms(1)])
      next
        case False
        with KeyDown esc show ?thesis
          by (simp add: on_keydown_effect [OF assms(1)])
      qed
    next
      case False
      with KeyDown show ?thesis
        by (simp add: on_keydown_effect [OF assms(1)])
    qed
  qed
qed

lemma loaded_page_modal: "page_dom loaded_page ''project-modal'' = Some blank_element"
  by (simp add: loaded_page_def shell_page_def shell_dom_def shell_ids_def)

lemma loaded_page_modal_body: "page_dom loaded_page ''modal-body'' = Some blank_element"
  by (simp add: loaded_page_def shell_page_def shell_dom_def shell_ids_def)

lemma loaded_page_opens: "opens (Some ''p2'') loaded_page"
  by (simp add: opens_def loaded_page_def demo_projects_def demo_project_def)

lemma loaded_page_closed: "\<not> modal_open loaded_page \<and> \<not> scroll_locked loaded_page"
  by (simp add: modal_open_def scroll_locked_def classList_contains_def loaded_page_def
      shell_page_def shell_dom_def shell_ids_def blank_element_def)

theorem modal_scroll_lock_witness:
  "page_dom loaded_page ''project-modal'' = Some blank_element \<and>
   page_dom loaded_page ''modal-body'' = Some blank_element \<and>
   opens (Some ''p2'') loaded_page \<and>
   (modal_open loaded_page \<longleftrightarrow> scroll_locked loaded_page) \<and>
   (\<exists>p'. handle (GridClick (Some ''p2'')) loaded_page = Some p' \<and>
      modal_open p' \<and> scroll_locked p')"
  using modal_scroll_lock [OF loaded_page_modal loaded_page_modal_body,
      of "GridClick (Some ''p2'')"]
    loaded_page_modal loaded_page_modal_body loaded_page_opens loaded_page_closed
  by simp blast

section \<open>The active navigation link\<close>

lemma mark_links_map: "mark_links sectionId ls = map (mark_link sectionId) ls"
  unfolding mark_links_def mark_link_def ..

lemma is_active_mark_link: "is_active (mark_link sectionId l) = targets sectionId l"
  by (simp add: mark_link_def is_active_def targets_def Let_def)

lemma href_mark_link: "link_href (mark_link sectionId l) = link_href l"
  by (simp add: mark_link_def Let_def)

lemma active_count_mark_links:
  "active_count (mark_links sectionId ls) = length (filter (targets sectionId) ls)"
  by (induction ls) (simp_all add: mark_links_map active_count_def is_active_mark_link)

lemma href_mark_links: "map link_href (mark_links sectionId ls) = map link_href ls"
  by (simp add: mark_links_map href_mark_link)

lemma targets_via_hrefs:
  "length (filter (targets t) xs) =
     length (filter (\<lambda>h. h = Some (CHR ''#'' # t)) (map link_href xs))"
  by (induction xs) (simp_all add: targets_def)

lemma targets_mark_links:
  "length (filter (targets t) (mark_links sectionId ls)) = length (filter (targets t) ls)"
  by (simp only: targets_via_hrefs href_mark_links)

lemma updateActiveNav_Nil: "updateActiveNav scrollY [] ls = ls"
  by (simp add: updateActiveNav_def)

lemma updateActiveNav_Cons:
  "updateActiveNav scrollY (s # sections) ls =
     updateActiveNav scrollY sections
       (if in_view scrollY s then mark_links (section_id s) ls else ls)"
  by (simp add: updateActiveNav_def)

lemma updateActiveNav_none_in_view:
  "\<forall>s \<in> set sections. \<not> in_view scrollY s \<Longrightarrow> updateActiveNav scrollY sections ls = ls"
  by (induction sections) (simp_all add: updateActiveNav_Nil updateActiveNav_Cons)

lemma updateActiveNav_keeps_at_most_one:
  assumes "\<forall>s \<in> set sections. length (filter (targets (section_id s)) ls) \<le> 1"
    and "active_count ls \<le> 1"
  shows "active_count (updateActiveNav scrollY sections ls) \<le> 1"
  using assms
proof (induction sections arbitrary: ls)
  case Nil
  then show ?case by (simp add: updateActiveNav_Nil)
next
  case (Cons s sections)
  let ?ls = "if in_view scrollY s then mark_links (section_id s) ls else ls"
  have "\<forall>t \<in> set sections. length (filter (targets (section_id t)) ?ls) \<le> 1"
    using Cons.prems(1) by (simp add: targets_mark_links)
  moreover have "active_count ?ls \<le> 1"
    using Cons.prems by (simp add: active_count_mark_links)
  ultimately have "active_count (updateActiveNav scrollY sections ?ls) \<le> 1"
    by (rule Cons.IH)
  then show ?case
    by (simp only: updateActiveNav_Cons)
qed

lemma updateActiveNav_in_view_at_most_one:
  assumes "\<forall>s \<in> set sections. length (filter (targets (section_id s)) ls) \<le> 1"
    and "\<exists>s \<in> set sections. in_view scrollY s"
  shows "active_count (updateActiveNav scrollY sections ls) \<le> 1"
  using assms
proof (induction sections arbitrary: ls)
  case Nil
  then show ?case by simp
next
  case (Cons s sections)
  show ?case
  proof (cases "in_view scrollY s")
    case True
    have "\<forall>t \<in> set sections.
            length (filter (targets (section_id t)) (mark_links (section_id s) ls)) \<le> 1"
      using Cons.prems(1) by (simp add: targets_mark_links)
    moreover have "active_count (mark_links (section_id s) ls) \<le> 1"
      using Cons.prems(1) by (simp add: active_count_mark_links)
    ultimately have
      "active_count (updateActiveNav scrollY sections (mark_links (section_id s) ls)) \<le> 1"
      by (rule updateActiveNav_keeps_at_most_one)
    with True show ?thesis
      by (simp only: updateActiveNav_Cons if_True)
  next
    case False
    have "\<forall>t \<in> set sections. length (filter (targets (section_id t)) ls) \<le> 1"
      using Cons.prems(1) by simp
    moreover have "\<exists>t \<in> set sections. in_view scrollY t"
      using Cons.prems(2) False by simp
    ultimately have "active_count (updateActiveNav scrollY sections ls) \<le> 1"
      by (rule Cons.IH)
    with False show ?thesis
      by (simp only: updateActiveNav_Cons if_False)
  qed
qed

lemma home_in_view: "in_view 0 home_section"
  by (simp add: in_view_def home_section_def)

lemma about_not_in_view: "\<not> in_view 0 about_section"
  by (simp add: in_view_def about_section_def)

lemma mark_home_twice:
  "mark_links ''home'' [home_link, about_link, home_link] =
     [home_link\<lparr>link_classes := [''nav-link'', ''active'']\<rparr>, about_link,
      home_link\<lparr>link_classes := [''nav-link'', ''active'']\<rparr>]"
  by (simp add: mark_links_def home_link_def about_link_def)

lemma mark_home_once:
  "mark_links ''home'' [home_link, about_link] =
     [home_link\<lparr>link_classes := [''nav-link'', ''active'']\<rparr>, about_link]"
  by (simp add: mark_links_def home_link_def about_link_def)

lemma update_two_home_links:
  "updateActiveNav 0 [home_section, about_section] [home_link, about_link, home_link] =
     mark_links ''home'' [home_link, about_link, home_link]"
  by (simp add: updateActiveNav_Cons updateActiveNav_Nil home_in_view about_not_in_view)
     (simp add: home_section_def)

text \<open>
  Claim C8 as stated fails: the inner loop marks every link whose \<^verbatim>\<open>href\<close> names the
  section in view, so two navigation links to the same section are both active after the
  update.
\<close>

theorem two_links_both_active:
  "active_count
     (updateActiveNav 0 [home_section, about_section] [home_link, about_link, home_link]) = 2"
  by (simp add: update_two_home_links mark_home_twice)
     (simp add: active_count_def is_active_def home_link_def about_link_def)

text \<open>
  Claim C8, amended. If no two navigation links point to the same section, then after an
  update at most one link is active, provided some section contains the scroll position
  or at most one link was active before. When no section contains the scroll position the
  update leaves the links as they were.
\<close>

theorem scroll_spy_at_most_one:
  assumes "\<forall>s \<in> set sections. length (filter (targets (section_id s)) ls) \<le> 1"
  shows "((\<exists>s \<in> set sections. in_view scrollY s) \<or> active_count ls \<le> 1 \<longrightarrow>
            active_count (updateActiveNav scrollY sections ls) \<le> 1) \<and>
         ((\<forall>s \<in> set sections. \<not> in_view scrollY s) \<longrightarrow>
            updateActiveNav scrollY sections ls = ls)"
  using updateActiveNav_in_view_at_most_one [OF assms]
    updateActiveNav_keeps_at_most_one [OF assms] updateActiveNav_none_in_view
  by blast

theorem scroll_spy_at_most_one_witness:
  "list_all (\<lambda>s. length (filter (targets (section_id s)) [home_link, about_link]) \<le> 1)
     [home_section, about_section] \<and>
   in_view 0 home_section \<and>
   active_count (updateActiveNav 0 [home_section, about_section] [home_link, about_link]) \<le> 1"
proof -
  have u: "\<forall>s \<in> set [home_section, about_section].
             length (filter (targets (section_id s)) [home_link, about_link]) \<le> 1"
    by (simp add: targets_def home_section_def about_section_def home_link_def about_link_def)
  have v: "\<exists>s \<in> set [home_section, about_section]. in_view 0 s"
    using home_in_view by simp
  from scroll_spy_at_most_one [OF u, of 0] v
  have "active_count (updateActiveNav 0 [home_section, about_section] [home_link, about_link]) \<le> 1"
    by blast
  with u home_in_view show ?thesis
    unfolding list_all_iff by blast
qed

section \<open>Start-up with missing documents\<close>

lemma render_if_writes:
  assumes "\<And>data. render data = apply_writes (w data)" and "usable v"
  shows "render_if v render = apply_writes (writes_of (document_of v) w)"
proof (cases v)
  case None
  then show ?thesis
    by (simp add: render_if_def writes_of_def document_of_def fun_eq_iff)
next
  case (Some j)
  with assms(2) show ?thesis
    by (cases j)
       (simp_all add: render_if_def on_value_def writes_of_def document_of_def usable_def
          assms(1) fun_eq_iff)
qed

lemma render_if_unusable: "\<not> usable v \<Longrightarrow> render_if v render d = None"
  by (simp add: usable_def render_if_def on_value_def)

lemma ids_writes_of:
  assumes "\<And>data. fst ` set (w data) = set anchors"
  shows "fst ` set (writes_of doc w) \<subseteq> set anchors"
  by (cases doc) (simp_all add: writes_of_def assms)

lemma onDOMContentLoaded_unfold:
  "onDOMContentLoaded net year p = do {
     d \<leftarrow> render_if (loaded_profile net) renderProfile (page_dom p);
     d \<leftarrow> render_if (loaded_skills net) renderSkills d;
     d \<leftarrow> render_if (loaded_experience net) renderExperience d;
     d \<leftarrow> render_if (loaded_projects net) renderProjects d;
     d \<leftarrow> render_if (loaded_achievements net) renderAchievements d;
     _ \<leftarrow> initNavigation d;
     _ \<leftarrow> initScrollEffects d;
     _ \<leftarrow> initModal d;
     _ \<leftarrow> initFilters d;
     d \<leftarrow> set_textContent ''current-year'' (show_int year) d;
     Some (p\<lparr>page_dom := d, page_console := page_console p + mset (startup_log net)\<rparr>)
   }"
  by (simp add: onDOMContentLoaded_def split_def Let_def loaded_profile_def loaded_skills_def
      loaded_experience_def loaded_projects_def loaded_achievements_def startup_log_def)

lemma require_total: "require i d = (if d i = None then None else Some ())"
  by (simp add: require_def split: option.splits)

lemma inits_pass:
  assumes "\<forall>i \<in> set shell_ids. d i \<noteq> None"
  shows "initNavigation d = Some ()" "initScrollEffects d = Some ()"
    "initModal d = Some ()" "initFilters d = Some ()"
  using assms
  by (simp_all add: initNavigation_def initScrollEffects_def initModal_def initFilters_def
      require_total shell_ids_def)

lemma anchors_disjoint:
  "set profile_anchors \<inter> set skills_anchors = {}"
  "set profile_anchors \<inter> set experience_anchors = {}"
  "set profile_anchors \<inter> set projects_anchors = {}"
  "set profile_anchors \<inter> set achievements_anchors = {}"
  "set skills_anchors \<inter> set experience_anchors = {}"
  "set skills_anchors \<inter> set projects_anchors = {}"
  "set skills_anchors \<inter> set achievements_anchors = {}"
  "set experience_anchors \<inter> set projects_anchors = {}"
  "set experience_anchors \<inter> set achievements_anchors = {}"
  "set projects_anchors \<inter> set achievements_anchors = {}"
  by (simp_all add: profile_anchors_def skills_anchors_def experience_anchors_def
      projects_anchors_def achievements_anchors_def)

lemma year_not_anchor:
  "''current-year'' \<notin> set profile_anchors" "''current-year'' \<notin> set skills_anchors"
  "''current-year'' \<notin> set experience_anchors" "''current-year'' \<notin> set projects_anchors"
  "''current-year'' \<notin> set achievements_anchors" "''current-year'' \<in> set shell_ids"
  by (simp_all add: profile_anchors_def skills_anchors_def experience_anchors_def
      projects_anchors_def achievements_anchors_def shell_ids_def)

lemma eff_other:
  assumes "fst ` set ws \<subseteq> A" and "A \<inter> B = {} \<or> B \<inter> A = {}" and "i \<in> B"
  shows "eff ws i = id"
proof (rule eff_frame)
  from assms show "i \<notin> fst ` set ws" by blast
qed

lemma section_outcome_writes:
  assumes r: "\<And>data. render data = apply_writes (w data)"
    and present: "\<forall>i \<in> fst ` set (writes_of doc w). page_dom p i \<noteq> None"
    and same: "\<forall>i \<in> set anchors.
                 page_dom p' i = map_option (eff (writes_of doc w) i) (page_dom p i)"
  shows "section_outcome doc render anchors p p'"
proof (cases doc)
  case None
  with same show ?thesis
    by (simp add: section_outcome_def writes_of_def option.map_id0)
next
  case (Some data)
  let ?d' = "\<lambda>j. map_option (eff (w data) j) (page_dom p j)"
  from present Some have "\<forall>i \<in> fst ` set (w data). page_dom p i \<noteq> None"
    by (simp add: writes_of_def)
  then have "apply_writes (w data) (page_dom p) = Some ?d'"
    unfolding apply_writes_closed [of "w data" "page_dom p"] by (rule if_P)
  then have "render data (page_dom p) = Some ?d'"
    by (simp add: r)
  moreover from same Some have "\<forall>i \<in> set anchors. page_dom p' i = ?d' i"
    by (simp add: writes_of_def)
  ultimately show ?thesis
    using Some by (simp add: section_outcome_def)
qed

lemma startup_on_usable:
  assumes shell: "\<forall>i \<in> set shell_ids. page_dom p i \<noteq> None"
    and u1: "usable (loaded_profile net)" and u2: "usable (loaded_skills net)"
    and u3: "usable (loaded_experience net)" and u4: "usable (loaded_projects net)"
    and u5: "usable (loaded_achievements net)"
  shows "\<exists>p'. onDOMContentLoaded net year p = Some p' \<and>
           section_outcome (document_of (loaded_profile net)) renderProfile profile_anchors
             p p' \<and>
           section_outcome (document_of (loaded_skills net)) renderSkills skills_anchors
             p p' \<and>
           section_outcome (document_of (loaded_experience net)) renderExperience
             experience_anchors p p' \<and>
           section_outcome (document_of (loaded_projects net)) renderProjects projects_anchors
             p p' \<and>
           section_outcome (document_of (loaded_achievements net)) renderAchievements
             achievements_anchors p p' \<and>
           page_console p' = page_console p + mset (startup_log net)"
proof -
  let ?w1 = "writes_of (document_of (loaded_profile net)) profile_writes"
  let ?w2 = "writes_of (document_of (loaded_skills net)) skills_writes"
  let ?w3 = "writes_of (document_of (loaded_experience net)) experience_writes"
  let ?w4 = "writes_of (document_of (loaded_projects net)) projects_writes"
  let ?w5 = "writes_of (document_of (loaded_achievements net)) achievements_writes"
  let ?W = "?w1 @ ?w2 @ ?w3 @ ?w4 @ ?w5"
  let ?d0 = "page_dom p"
  let ?D = "\<lambda>j. map_option (eff ?W j) (?d0 j)"
  let ?D' = "?D(''current-year'' := map_option (with_text (show_int year)) (?D ''current-year''))"
  let ?p' = "p\<lparr>page_dom := ?D', page_console := page_console p + mset (startup_log net)\<rparr>"
  have i1: "fst ` set ?w1 \<subseteq> set profile_anchors" by (rule ids_writes_of) (rule ids_profile)
  have i2: "fst ` set ?w2 \<subseteq> set skills_anchors" by (rule ids_writes_of) (rule ids_skills)
  have i3: "fst ` set ?w3 \<subseteq> set experience_anchors"
    by (rule ids_writes_of) (rule ids_experience)
  have i4: "fst ` set ?w4 \<subseteq> set projects_anchors" by (rule ids_writes_of) (rule ids_projects)
  have i5: "fst ` set ?w5 \<subseteq> set achievements_anchors"
    by (rule ids_writes_of) (rule ids_achievements)
  have p1: "\<forall>i \<in> fst ` set ?w1. ?d0 i \<noteq> None" using i1 anchors_in_shell(1) shell by blast
  have p2: "\<forall>i \<in> fst ` set ?w2. ?d0 i \<noteq> None" using i2 anchors_in_shell(2) shell by blast
  have p3: "\<forall>i \<in> fst ` set ?w3. ?d0 i \<noteq> None" using i3 anchors_in_shell(3) shell by blast
  have p4: "\<forall>i \<in> fst ` set ?w4. ?d0 i \<noteq> None" using i4 anchors_in_shell(4) shell by blast
  have p5: "\<forall>i \<in> fst ` set ?w5. ?d0 i \<noteq> None" using i5 anchors_in_shell(5) shell by blast
  have "\<forall>i \<in> fst ` set ?W. ?d0 i \<noteq> None"
    using p1 p2 p3 p4 p5 by (simp add: image_Un ball_Un)
  then have run: "apply_writes ?W ?d0 = Some ?D"
    unfolding apply_writes_closed [of ?W ?d0] by (rule if_P)
  have present: "\<forall>i \<in> set shell_ids. ?D i \<noteq> None"
    using shell by simp
  have year: "?D ''current-year'' \<noteq> None"
    using present year_not_anchor(6) by blast
  have renders: "do {
       d \<leftarrow> render_if (loaded_profile net) renderProfile ?d0;
       d \<leftarrow> render_if (loaded_skills net) renderSkills d;
       d \<leftarrow> render_if (loaded_experience net) renderExperience d;
       d \<leftarrow> render_if (loaded_projects net) renderProjects d;
       d \<leftarrow> render_if (loaded_achievements net) renderAchievements d;
       K d } = Option.bind (apply_writes ?W ?d0) K" for K :: "dom \<Rightarrow> page option"
    by (simp add: render_if_writes [OF renderProfile_fun u1]
        render_if_writes [OF renderSkills_fun u2] render_if_writes [OF renderExperience_fun u3]
        render_if_writes [OF renderProjects_fun u4] render_if_writes [OF renderAchievements_fun u5]
        apply_writes_append)
  have result: "onDOMContentLoaded net year p = Some ?p'"
    unfolding onDOMContentLoaded_unfold renders run
    using year by (simp add: inits_pass [OF present] set_textContent_def update_element_total)
  have s1: "section_outcome (document_of (loaded_profile net)) renderProfile profile_anchors p ?p'"
  proof (rule section_outcome_writes [OF renderProfile_fun p1], rule ballI)
    fix i assume i: "i \<in> set profile_anchors"
    then have "i \<noteq> ''current-year''" using year_not_anchor(1) by blast
    moreover have "eff ?w2 i = id"
      by (rule eff_other [OF i2 _ i]) (simp add: anchors_disjoint)
    moreover have "eff ?w3 i = id"
      by (rule eff_other [OF i3 _ i]) (simp add: anchors_disjoint)
    moreover have "eff ?w4 i = id"
      by (rule eff_other [OF i4 _ i]) (simp add: anchors_disjoint)
    moreover have "eff ?w5 i = id"
      by (rule eff_other [OF i5 _ i]) (simp add: anchors_disjoint)
    ultimately have "i \<noteq> ''current-year'' \<and> eff ?W i = eff ?w1 i"
      by (simp add: eff_append)
    then show "page_dom ?p' i = map_option (eff ?w1 i) (?d0 i)"
      by simp
  qed
  have s2: "section_outcome (document_of (loaded_skills net)) renderSkills skills_anchors p ?p'"
  proof (rule section_outcome_writes [OF renderSkills_fun p2], rule ballI)
    fix i assume i: "i \<in> set skills_anchors"
    then have "i \<noteq> ''current-year''" using year_not_anchor(2) by blast
    moreover have "eff ?w1 i = id"
      by (rule eff_other [OF i1 _ i]) (simp add: anchors_disjoint)
    moreover have "eff ?w3 i = id"
      by (rule eff_other [OF i3 _ i]) (simp add: anchors_disjoint)
    moreover have "eff ?w4 i = id"
      by (rule eff_other [OF i4 _ i]) (simp add: anchors_disjoint)
    moreover have "eff ?w5 i = id"
      by (rule eff_other [OF i5 _ i]) (simp add: anchors_disjoint)
    ultimately have "i \<noteq> ''current-year'' \<and> eff ?W i = eff ?w2 i"
      by (simp add: eff_append)
    then show "page_dom ?p' i = map_option (eff ?w2 i) (?d0 i)"
      by simp
  qed
  have s3: "section_outcome (document_of (loaded_experience net)) renderExperience experience_anchors p ?p'"
  proof (rule section_outcome_writes [OF renderExperience_fun p3], rule ballI)
    fix i assume i: "i \<in> set experience_anchors"
    then have "i \<noteq> ''current-year''" using year_not_anchor(3) by blast
    moreover have "eff ?w1 i = id"
      by (rule eff_other [OF i1 _ i]) (simp add: anchors_disjoint)
    moreover have "eff ?w2 i = id"
      by (rule eff_other [OF i2 _ i]) (simp add: anchors_disjoint)
    moreover have "eff ?w4 i = id"
      by (rule eff_other [OF i4 _ i]) (simp add: anchors_disjoint)
    moreover have "eff ?w5 i = id"
      by (rule eff_other [OF i5 _ i]) (simp add: anchors_disjoint)
    ultimately have "i \<noteq> ''current-year'' \<and> eff ?W i = eff ?w3 i"
      by (simp add: eff_append)
    then show "page_dom ?p' i = map_option (eff ?w3 i) (?d0 i)"
      by simp
  qed
  have s4: "section_outcome (document_of (loaded_projects net)) renderProjects projects_anchors p ?p'"
  proof (rule section_outcome_writes [OF renderProjects_fun p4], rule ballI)
    fix i assume i: "i \<in> set projects_anchors"
    then have "i \<noteq> ''current-year''" using year_not_anchor(4) by blast
    moreover have "eff ?w1 i = id"
      by (rule eff_other [OF i1 _ i]) (simp add: anchors_disjoint)
    moreover have "eff ?w2 i = id"
      by (rule eff_other [OF i2 _ i]) (simp add: anchors_disjoint)
    moreover have "eff ?w3 i = id"
      by (rule eff_other [OF i3 _ i]) (simp add: anchors_disjoint)
    moreover have "eff ?w5 i = id"
      by (rule eff_other [OF i5 _ i]) (simp add: anchors_disjoint)
    ultimately have "i \<noteq> ''current-year'' \<and> eff ?W i = eff ?w4 i"
      by (simp add: eff_append)
    then show "page_dom ?p' i = map_option (eff ?w4 i) (?d0 i)"
      by simp
  qed
  have s5: "section_outcome (document_of (loaded_achievements net)) renderAchievements achievements_anchors
              p ?p'"
  proof (rule section_outcome_writes [OF renderAchievements_fun p5], rule ballI)
    fix i assume i: "i \<in> set achievements_anchors"
    then have "i \<noteq> ''current-year''" using year_not_anchor(5) by blast
    moreover have "eff ?w1 i = id"
      by (rule eff_other [OF i1 _ i]) (simp add: anchors_disjoint)
    moreover have "eff ?w2 i = id"
      by (rule eff_other [OF i2 _ i]) (simp add: anchors_disjoint)
    moreover have "eff ?w3 i = id"
      by (rule eff_other [OF i3 _ i]) (simp add: anchors_disjoint)
    moreover have "eff ?w4 i = id"
      by (rule eff_other [OF i4 _ i]) (simp add: anchors_disjoint)
    ultimately have "i \<noteq> ''current-year'' \<and> eff ?W i = eff ?w5 i"
      by (simp add: eff_append)
    then show "page_dom ?p' i = map_option (eff ?w5 i) (?d0 i)"
      by simp
  qed
  have c: "page_console ?p' = page_console p + mset (startup_log net)"
    by simp
  from result s1 s2 s3 s4 s5 c show ?thesis
    by blast
qed

lemma startup_on_unusable:
  assumes "\<not> usable (loaded_profile net) \<or> \<not> usable (loaded_skills net) \<or>
           \<not> usable (loaded_experience net) \<or> \<not> usable (loaded_projects net) \<or>
           \<not> usable (loaded_achievements net)"
  shows "onDOMContentLoaded net year p = None"
  using assms unfolding onDOMContentLoaded_unfold
  by (elim disjE) (simp_all add: render_if_unusable)

lemma loadJSON_cases:
  "loadJSON path (Response True (Some v)) = ([], Some v)"
  "loadJSON path Rejected = ([(''Error loading '' @ path @ '':'', TypeError)], None)"
  "loadJSON path (Response False body) =
     ([(''Error loading '' @ path @ '':'', Error (''Failed to load '' @ path))], None)"
  "loadJSON path (Response True None) = ([(''Error loading '' @ path @ '':'', SyntaxError)], None)"
  by (simp_all add: loadJSON_def loadJSON_try_def)

lemma shell_page_complete: "\<forall>i \<in> set shell_ids. page_dom shell_page i \<noteq> None"
  by (simp add: shell_page_def shell_dom_def shell_ids_def)

text \<open>
  Claim C2 as stated fails. \<^verbatim>\<open>loadJSON\<close> hands on whatever the body parses to, and
  start-up does not catch what a renderer throws. When the fetch of the projects fails and
  the skills file holds \<^verbatim>\<open>{}\<close>, the load of the skills succeeds and logs nothing,
  \<^verbatim>\<open>renderSkills\<close> throws, and start-up ends there, on a page that has every element:
  the sections after it, whose documents are present, are not rendered and no listener is
  attached.
\<close>

theorem empty_object_aborts_startup:
  "loadJSON ''./data/skills.json'' (fetch_skills empty_skills_net) = ([], Some Empty_object) \<and>
   loaded_projects empty_skills_net = None \<and>
   loaded_experience empty_skills_net = Some (Document demo_experience) \<and>
   loaded_achievements empty_skills_net = Some (Document demo_achievements) \<and>
   has_elements shell_page shell_ids \<and>
   onDOMContentLoaded empty_skills_net 2026 shell_page = None"
proof -
  have "loaded_skills empty_skills_net = Some Empty_object"
    by (simp add: loaded_skills_def empty_skills_net_def loadJSON_cases)
  then have "onDOMContentLoaded empty_skills_net 2026 shell_page = None"
    unfolding onDOMContentLoaded_unfold
    by (simp add: render_if_unusable usable_def)
  then show ?thesis
    using shell_page_complete
    by (simp add: loaded_experience_def loaded_achievements_def loaded_projects_def
        empty_skills_net_def
        loadJSON_cases has_elements_def list_all_iff)
qed

text \<open>
  Claim C2, amended. \<^verbatim>\<open>loadJSON\<close> always returns: when the fetch is rejected, the status
  is not ok or the body is not JSON, it logs one line and returns \<^verbatim>\<open>null\<close>; otherwise it
  returns the value the body parses to, whatever it is, and logs nothing. On a page that
  has every element the code looks up, if each of the five loaded values is \<^verbatim>\<open>null\<close>,
  falsy or a complete document and no project title holds a lone surrogate, start-up
  returns: the elements of a section whose value is \<^verbatim>\<open>null\<close> or falsy are untouched,
  those of a section whose document is present are exactly as its renderer alone leaves
  them, and the console gains the lines of the failed loads. If one of the values is
  \<^verbatim>\<open>{}\<close>, start-up ends with the exception its renderer throws.
\<close>

theorem startup_tolerates_failures:
  "loadJSON path (Response True (Some v)) = ([], Some v) \<and>
   loadJSON path' Rejected = ([(''Error loading '' @ path' @ '':'', TypeError)], None) \<and>
   loadJSON path' (Response False body) =
     ([(''Error loading '' @ path' @ '':'', Error (''Failed to load '' @ path'))], None) \<and>
   loadJSON path' (Response True None) =
     ([(''Error loading '' @ path' @ '':'', SyntaxError)], None) \<and>
   ((\<forall>i \<in> set shell_ids. page_dom p i \<noteq> None) \<and>
    usable (loaded_profile net) \<and> usable (loaded_skills net) \<and>
    usable (loaded_experience net) \<and> usable (loaded_projects net) \<and>
    usable (loaded_achievements net) \<and> encodable_titles (loaded_projects net) \<longrightarrow>
      (\<exists>p'. onDOMContentLoaded net year p = Some p' \<and>
         section_outcome (document_of (loaded_profile net)) renderProfile profile_anchors
           p p' \<and>
         section_outcome (document_of (loaded_skills net)) renderSkills skills_anchors
           p p' \<and>
         section_outcome (document_of (loaded_experience net)) renderExperience
           experience_anchors p p' \<and>
         section_outcome (document_of (loaded_projects net)) renderProjects projects_anchors
           p p' \<and>
         section_outcome (document_of (loaded_achievements net)) renderAchievements
           achievements_anchors p p' \<and>
         page_console p' = page_console p + mset (startup_log net))) \<and>
   (\<not> usable (loaded_profile net) \<or> \<not> usable (loaded_skills net) \<or>
    \<not> usable (loaded_experience net) \<or> \<not> usable (loaded_projects net) \<or>
    \<not> usable (loaded_achievements net) \<longrightarrow>
      onDOMContentLoaded net year p = None)"
  using startup_on_usable [of p net year] startup_on_unusable [of net year p]
  by (intro conjI impI) (rule loadJSON_cases | blast)+

lemma demo_net_loaded:
  "loaded_profile demo_net = Some (Document demo_profile)" "loaded_skills demo_net = None"
  "loaded_experience demo_net = None" "loaded_projects demo_net = None"
  "loaded_achievements demo_net = Some (Document demo_achievements)"
  by (simp_all add: loaded_profile_def loaded_skills_def loaded_experience_def
      loaded_projects_def loaded_achievements_def demo_net_def loadJSON_cases)

lemma demo_profile_hero:
  "renderProfile demo_profile (page_dom shell_page) = Some d' \<Longrightarrow>
     d' ''hero-name'' = Some (with_text ''Ada'' blank_element)"
  using shell_page_complete anchors_in_shell(1)
  by (simp add: renderProfile_fun apply_writes_closed ids_profile subset_iff)
     (auto simp: eff_profile_at shell_page_def shell_dom_def shell_ids_def demo_profile_def)

theorem startup_tolerates_failures_witness:
  "list_all (\<lambda>i. page_dom shell_page i \<noteq> None) shell_ids \<and>
   usable (loaded_profile demo_net) \<and> usable (loaded_skills demo_net) \<and>
   usable (loaded_experience demo_net) \<and> usable (loaded_projects demo_net) \<and>
   usable (loaded_achievements demo_net) \<and> encodable_titles (loaded_projects demo_net) \<and>
   document_of (loaded_profile demo_net) = Some demo_profile \<and>
   document_of (loaded_skills demo_net) = None \<and>
   (\<exists>p'. onDOMContentLoaded demo_net 2026 shell_page = Some p' \<and>
      page_dom p' ''hero-name'' = Some (with_text ''Ada'' blank_element) \<and>
      page_dom p' ''skills-grid'' = page_dom shell_page ''skills-grid'' \<and>
      size (page_console p') = 3)"
proof -
  have u: "usable (loaded_profile demo_net)" "usable (loaded_skills demo_net)"
    "usable (loaded_experience demo_net)" "usable (loaded_projects demo_net)"
    "usable (loaded_achievements demo_net)" "encodable_titles (loaded_projects demo_net)"
    by (simp_all add: demo_net_loaded usable_def encodable_titles_def document_of_def)
  have d: "document_of (loaded_profile demo_net) = Some demo_profile"
    "document_of (loaded_skills demo_net) = None"
    by (simp_all add: demo_net_loaded document_of_def)
  have l: "size (mset (startup_log demo_net)) = 3"
    by (simp add: startup_log_def demo_net_def loadJSON_cases)
  from startup_tolerates_failures [of _ _ _ _ shell_page demo_net 2026] shell_page_complete u
  obtain p' where p': "onDOMContentLoaded demo_net 2026 shell_page = Some p'"
    and s1: "section_outcome (document_of (loaded_profile demo_net)) renderProfile
               profile_anchors shell_page p'"
    and s2: "section_outcome (document_of (loaded_skills demo_net)) renderSkills
               skills_anchors shell_page p'"
    and c: "page_console p' = page_console shell_page + mset (startup_log demo_net)"
    by blast
  from s1 obtain d' where "renderProfile demo_profile (page_dom shell_page) = Some d'"
    and "page_dom p' ''hero-name'' = d' ''hero-name''"
    by (auto simp: section_outcome_def d profile_anchors_def)
  then have "page_dom p' ''hero-name'' = Some (with_text ''Ada'' blank_element)"
    by (simp add: demo_profile_hero)
  moreover from s2 have "page_dom p' ''skills-grid'' = page_dom shell_page ''skills-grid''"
    by (simp add: section_outcome_def d skills_anchors_def)
  moreover from c l have "size (page_console p') = 3"
    by (simp add: shell_page_def)
  ultimately show ?thesis
    using p' shell_page_complete u d unfolding list_all_iff by blast
qed

section \<open>Text fields\<close>

lemma same_markup: "experience_markup one_highlight = experience_markup two_highlights"
  by (simp add: experience_markup_def one_highlight_def two_highlights_def timeline_item_def
      timeline_highlight_def join_def)

lemma shell_dom_timeline: "shell_dom ''experience-timeline'' = Some blank_element"
  by (simp add: shell_dom_def shell_ids_def)

lemma sublist_in_left: "sublist x a \<Longrightarrow> sublist x (a @ b)"
  by (metis sublist_append)

lemma sublist_join_map:
  assumes "x \<in> set xs" and "sublist s (f x)"
  shows "sublist s (join (map f xs))"
proof -
  from assms(1) obtain ys zs where "xs = ys @ x # zs"
    by (auto simp: in_set_conv_decomp)
  then have "join (map f xs) = join (map f ys) @ f x @ join (map f zs)"
    by (simp add: join_def)
  with assms(2) show ?thesis
    by (simp add: sublist_skip sublist_in_left)
qed

lemma rendered_writes:
  assumes "apply_writes ws d = Some d'"
  shows "d' j = map_option (eff ws j) (d j)" and "j \<in> fst ` set ws \<Longrightarrow> d j \<noteq> None"
  using assms by (auto simp: apply_writes_closed split: if_splits)

lemma content_with:
  "el_content (with_text s e) = Text s" "el_content (with_markup s e) = Markup s"
  "el_content (with_attr a v e) = el_content e"
  by (simp_all add: with_defs)

lemma profile_contents:
  assumes "renderProfile pf d = Some d'"
  shows "map_option el_content (d' ''hero-name'') = Some (Text (profile_name pf))"
    and "map_option el_content (d' ''hero-tagline'') = Some (Text (profile_tagline pf))"
    and "map_option el_content (d' ''about-summary'') =
           Some (Text (about_summary (profile_about pf)))"
    and "map_option el_content (d' ''about-description'') =
           Some (Text (about_description (profile_about pf)))"
    and "map_option el_content (d' ''about-cta'') = Some (Text (about_cta (profile_about pf)))"
    and "map_option el_content (d' ''hero-roles'') =
           Some (Markup (roles_markup (profile_roles pf)))"
    and "map_option el_content (d' ''about-stats'') =
           Some (Markup (stats_markup (profile_stats pf)))"
proof -
  from assms have w: "apply_writes (profile_writes pf) d = Some d'"
    by (simp add: renderProfile_fun)
  have here: "d j \<noteq> None" if "j \<in> set profile_anchors" for j
    using rendered_writes(2) [OF w, of j] that by (simp add: ids_profile)
  show "map_option el_content (d' ''hero-name'') = Some (Text (profile_name pf))"
    using here [of "''hero-name''"]
    by (auto simp: rendered_writes(1) [OF w] eff_profile_at content_with profile_anchors_def)
  show "map_option el_content (d' ''hero-tagline'') = Some (Text (profile_tagline pf))"
    using here [of "''hero-tagline''"]
    by (auto simp: rendered_writes(1) [OF w] eff_profile_at content_with profile_anchors_def)
  show "map_option el_content (d' ''about-summary'') =
           Some (Text (about_summary (profile_about pf)))"
    using here [of "''about-summary''"]
    by (auto simp: rendered_writes(1) [OF w] eff_profile_at content_with profile_anchors_def)
  show "map_option el_content (d' ''about-description'') =
           Some (Text (about_description (profile_about pf)))"
    using here [of "''about-description''"]
    by (auto simp: rendered_writes(1) [OF w] eff_profile_at content_with profile_anchors_def)
  show "map_option el_content (d' ''about-cta'') = Some (Text (about_cta (profile_about pf)))"
    using here [of "''about-cta''"]
    by (auto simp: rendered_writes(1) [OF w] eff_profile_at content_with profile_anchors_def)
  show "map_option el_content (d' ''hero-roles'') =
           Some (Markup (roles_markup (profile_roles pf)))"
    using here [of "''hero-roles''"]
    by (auto simp: rendered_writes(1) [OF w] eff_profile_at content_with profile_anchors_def)
  show "map_option el_content (d' ''about-stats'') =
           Some (Markup (stats_markup (profile_stats pf)))"
    using here [of "''about-stats''"]
    by (auto simp: rendered_writes(1) [OF w] eff_profile_at content_with profile_anchors_def)
qed

lemma single_markup_content:
  assumes "set_innerHTML i s d = Some d'"
  shows "map_option el_content (d' i) = Some (Markup s)"
  using assms by (auto simp: set_innerHTML_def update_element_def content_with split: option.splits)

lemma projects_grid_content:
  assumes "renderProjects pr d = Some d'"
  shows "map_option el_content (d' ''projects-grid'') = Some (Markup (projects_markup pr))"
proof -
  from assms obtain y where "set_innerHTML ''projects-grid'' (projects_markup pr) y = Some d'"
    by (auto simp: renderProjects_def bind_eq_Some_conv)
  then show ?thesis
    by (rule single_markup_content)
qed

lemma in_timeline_item:
  "sublist (exp_period x) (timeline_item x)" "sublist (exp_role x) (timeline_item x)"
  "sublist (exp_company x) (timeline_item x)" "sublist (exp_description x) (timeline_item x)"
  "sublist (join (map timeline_highlight (exp_highlights x))) (timeline_item x)"
  unfolding timeline_item_def
  by (rule sublist_here | rule sublist_skip)+

lemma in_project_card:
  "sublist (project_category q) (project_card q)" "sublist (project_title q) (project_card q)"
  "sublist (project_shortDescription q) (project_card q)"
  unfolding project_card_def
  by (rule sublist_here | rule sublist_skip)+

lemma in_modal_markup:
  "sublist (project_category q) (modal_markup q)" "sublist (project_title q) (modal_markup q)"
  "sublist (project_description q) (modal_markup q)"
  "sublist (join (map modal_highlight (project_highlights q))) (modal_markup q)"
  unfolding modal_markup_def
  by (rule sublist_here | rule sublist_skip)+

lemma in_skill_category:
  "sublist (category_name c) (skill_category c)"
  "sublist (join (map skill_item (category_skills c))) (skill_category c)"
  unfolding skill_category_def
  by (rule sublist_here | rule sublist_skip)+

lemma in_skill_item: "sublist (skill_name s) (skill_item s)"
  unfolding skill_item_def
  by (rule sublist_here | rule sublist_skip)+

lemma in_achievement_card:
  "sublist (item_title it) (achievement_card it)"
  "sublist (item_organization it) (achievement_card it)"
  "sublist (item_description it) (achievement_card it)"
  unfolding achievement_card_def
  by (rule sublist_here | rule sublist_skip)+

lemma in_stat_card:
  "sublist (stat_value st) (stat_card st)" "sublist (stat_label st) (stat_card st)"
  unfolding stat_card_def
  by (rule sublist_here | rule sublist_skip)+

lemma in_role_tag: "sublist role (role_tag n index role)"
  unfolding role_tag_def
  by (rule sublist_here | rule sublist_skip)+

lemma role_in_roles_markup:
  assumes "role \<in> set roles"
  shows "sublist role (roles_markup roles)"
proof -
  from assms obtain i where "i < length roles" and "roles ! i = role"
    by (auto simp: in_set_conv_nth)
  then have "(i, role) \<in> set (enumerate 0 roles)"
    by (simp add: in_set_enumerate_eq)
  moreover have "sublist role (case (i, role) of (index, r) \<Rightarrow> role_tag (length roles) index r)"
    by (simp add: in_role_tag)
  ultimately show ?thesis
    unfolding roles_markup_def by (rule sublist_join_map)
qed

lemmas sublist_trans = sublist_order.order.trans

lemma highlight_in_experience:
  assumes "x \<in> set (experiences ex)" and "h \<in> set (exp_highlights x)"
  shows "sublist (timeline_highlight h) (experience_markup ex)"
proof -
  have "sublist (timeline_highlight h) (join (map timeline_highlight (exp_highlights x)))"
    using assms(2) by (rule sublist_join_map) simp
  then have "sublist (timeline_highlight h) (timeline_item x)"
    using in_timeline_item(5) by (rule sublist_trans)
  with assms(1) show ?thesis
    unfolding experience_markup_def by (rule sublist_join_map)
qed

lemma highlight_in_modal:
  assumes "h \<in> set (project_highlights q)"
  shows "sublist (modal_highlight h) (modal_markup q)"
proof -
  have "sublist (modal_highlight h) (join (map modal_highlight (project_highlights q)))"
    using assms by (rule sublist_join_map) simp
  then show ?thesis
    using in_modal_markup(4) by (rule sublist_trans)
qed

lemma skill_in_skills:
  assumes "c \<in> set (categories sk)" and "s \<in> set (category_skills c)"
  shows "sublist (skill_name s) (skills_markup sk)"
proof -
  have "sublist (skill_name s) (join (map skill_item (category_skills c)))"
    using assms(2) in_skill_item by (rule sublist_join_map)
  then have "sublist (skill_name s) (skill_category c)"
    using in_skill_category(2) by (rule sublist_trans)
  with assms(1) show ?thesis
    unfolding skills_markup_def by (rule sublist_join_map)
qed

lemma achievements_markup_cards:
  "it \<in> set (achievements ac @ certifications ac) \<Longrightarrow>
     achievements_markup ac = join (map achievement_card (achievements ac @ certifications ac))"
  by (auto simp: achievements_markup_def Let_def)



text \<open>
  Claim C1 as stated fails for the fields that are interpolated into \<^verbatim>\<open>innerHTML\<close>
  templates: nothing escapes them. An entry with the single highlight
  \<^verbatim>\<open>a</li><li class="timeline-highlight">b\<close> renders to the very same page as the
  entry with the two highlights \<^verbatim>\<open>a\<close> and \<^verbatim>\<open>b\<close>, so the markup in the field is
  read as markup.
\<close>

theorem markup_in_highlight_is_markup:
  "exp_highlights (hd (experiences one_highlight)) \<noteq>
     exp_highlights (hd (experiences two_highlights)) \<and>
   length (exp_highlights (hd (experiences one_highlight))) = 1 \<and>
   length (exp_highlights (hd (experiences two_highlights))) = 2 \<and>
   renderExperience one_highlight shell_dom = renderExperience two_highlights shell_dom \<and>
   renderExperience one_highlight shell_dom =
     Some (shell_dom(''experience-timeline'' \<mapsto>
             with_markup (experience_markup two_highlights) blank_element))"
  using shell_dom_timeline
  by (simp add: renderExperience_def set_innerHTML_def update_element_Some same_markup)
     (simp add: one_highlight_def two_highlights_def)

text \<open>
  Claim C1, amended. The profile's name, tagline and the three about texts are assigned to
  \<^verbatim>\<open>textContent\<close>: they are literal text, whatever they contain. The other text
  fields (roles, stats, category and skill names, the fields and highlights of an
  experience, the category, title and descriptions and highlights of a project, the title,
  organization and description of an achievement) are spliced into the markup assigned to
  \<^verbatim>\<open>innerHTML\<close>: that markup holds each value character for character, and unescaped.
\<close>

theorem text_fields_verbatim:
  \<open>(renderProfile pf d = Some d' \<longrightarrow>
      map_option el_content (d' ''hero-name'') = Some (Text (profile_name pf)) \<and>
      map_option el_content (d' ''hero-tagline'') = Some (Text (profile_tagline pf)) \<and>
      map_option el_content (d' ''about-summary'') =
        Some (Text (about_summary (profile_about pf))) \<and>
      map_option el_content (d' ''about-description'') =
        Some (Text (about_description (profile_about pf))) \<and>
      map_option el_content (d' ''about-cta'') = Some (Text (about_cta (profile_about pf))) \<and>
      map_option el_content (d' ''hero-roles'') =
        Some (Markup (roles_markup (profile_roles pf))) \<and>
      map_option el_content (d' ''about-stats'') =
        Some (Markup (stats_markup (profile_stats pf)))) \<and>
   (renderSkills sk d = Some d' \<longrightarrow>
      map_option el_content (d' ''skills-grid'') = Some (Markup (skills_markup sk))) \<and>
   (renderExperience ex d = Some d' \<longrightarrow>
      map_option el_content (d' ''experience-timeline'') = Some (Markup (experience_markup ex))) \<and>
   (renderProjects pr d = Some d' \<longrightarrow>
      map_option el_content (d' ''projects-grid'') = Some (Markup (projects_markup pr))) \<and>
   (renderAchievements ac d = Some d' \<longrightarrow>
      map_option el_content (d' ''achievements-grid'') = Some (Markup (achievements_markup ac))) \<and>
   (\<forall>role \<in> set (profile_roles pf). sublist role (roles_markup (profile_roles pf))) \<and>
   (\<forall>st \<in> set (profile_stats pf).
      sublist (stat_value st) (stats_markup (profile_stats pf)) \<and>
      sublist (stat_label st) (stats_markup (profile_stats pf))) \<and>
   (\<forall>c \<in> set (categories sk).
      sublist (category_name c) (skills_markup sk) \<and>
      (\<forall>s \<in> set (category_skills c). sublist (skill_name s) (skills_markup sk))) \<and>
   (\<forall>x \<in> set (experiences ex).
      sublist (exp_period x) (experience_markup ex) \<and>
      sublist (exp_role x) (experience_markup ex) \<and>
      sublist (exp_company x) (experience_markup ex) \<and>
      sublist (exp_description x) (experience_markup ex) \<and>
      (\<forall>h \<in> set (exp_highlights x).
         sublist (''<li class="timeline-highlight">'' @ h @ ''</li>'') (experience_markup ex))) \<and>
   (\<forall>q \<in> set (projects pr).
      sublist (project_category q) (projects_markup pr) \<and>
      sublist (project_title q) (projects_markup pr) \<and>
      sublist (project_shortDescription q) (projects_markup pr)) \<and>
   (\<forall>it \<in> set (achievements ac @ certifications ac).
      sublist (item_title it) (achievements_markup ac) \<and>
      sublist (item_organization it) (achievements_markup ac) \<and>
      sublist (item_description it) (achievements_markup ac)) \<and>
   sublist (project_title q) (modal_markup q) \<and>
   sublist (project_description q) (modal_markup q) \<and>
   (\<forall>h \<in> set (project_highlights q). sublist (''<li>'' @ h @ ''</li>'') (modal_markup q))\<close>
proof -
  have roles: "\<forall>role \<in> set (profile_roles pf). sublist role (roles_markup (profile_roles pf))"
    by (simp add: role_in_roles_markup)
  have stats: "\<forall>st \<in> set (profile_stats pf).
      sublist (stat_value st) (stats_markup (profile_stats pf)) \<and>
      sublist (stat_label st) (stats_markup (profile_stats pf))"
    unfolding stats_markup_def by (blast intro: sublist_join_map in_stat_card)
  have skills: "\<forall>c \<in> set (categories sk).
      sublist (category_name c) (skills_markup sk) \<and>
      (\<forall>s \<in> set (category_skills c). sublist (skill_name s) (skills_markup sk))"
    using skill_in_skills
    by (auto simp: skills_markup_def intro: sublist_join_map in_skill_category(1))
  have exps: \<open>\<forall>x \<in> set (experiences ex).
      sublist (exp_period x) (experience_markup ex) \<and>
      sublist (exp_role x) (experience_markup ex) \<and>
      sublist (exp_company x) (experience_markup ex) \<and>
      sublist (exp_description x) (experience_markup ex) \<and>
      (\<forall>h \<in> set (exp_highlights x).
         sublist (''<li class="timeline-highlight">'' @ h @ ''</li>'') (experience_markup ex))\<close>
  proof
    fix x assume x: "x \<in> set (experiences ex)"
    have "sublist s (experience_markup ex)" if "sublist s (timeline_item x)" for s
      unfolding experience_markup_def using x that by (rule sublist_join_map)
    moreover have \<open>sublist (''<li class="timeline-highlight">'' @ h @ ''</li>'')
                     (experience_markup ex)\<close> if "h \<in> set (exp_highlights x)" for h
      using highlight_in_experience [OF x that] by (simp add: timeline_highlight_def)
    ultimately show \<open>sublist (exp_period x) (experience_markup ex) \<and>
      sublist (exp_role x) (experience_markup ex) \<and>
      sublist (exp_company x) (experience_markup ex) \<and>
      sublist (exp_description x) (experience_markup ex) \<and>
      (\<forall>h \<in> set (exp_highlights x).
         sublist (''<li class="timeline-highlight">'' @ h @ ''</li>'') (experience_markup ex))\<close>
      using in_timeline_item by blast
  qed
  have projs: "\<forall>q \<in> set (projects pr).
      sublist (project_category q) (projects_markup pr) \<and>
      sublist (project_title q) (projects_markup pr) \<and>
      sublist (project_shortDescription q) (projects_markup pr)"
    unfolding projects_markup_def by (blast intro: sublist_join_map in_project_card)
  have achs: "\<forall>it \<in> set (achievements ac @ certifications ac).
      sublist (item_title it) (achievements_markup ac) \<and>
      sublist (item_organization it) (achievements_markup ac) \<and>
      sublist (item_description it) (achievements_markup ac)"
  proof
    fix it assume it: "it \<in> set (achievements ac @ certifications ac)"
    have "sublist s (achievements_markup ac)" if "sublist s (achievement_card it)" for s
      unfolding achievements_markup_cards [OF it] using it that by (rule sublist_join_map)
    then show "sublist (item_title it) (achievements_markup ac) \<and>
      sublist (item_organization it) (achievements_markup ac) \<and>
      sublist (item_description it) (achievements_markup ac)"
      using in_achievement_card by blast
  qed
  have modal: "\<forall>h \<in> set (project_highlights q). sublist (''<li>'' @ h @ ''</li>'') (modal_markup q)"
    using highlight_in_modal [of _ q] by (simp add: modal_highlight_def)
  have ach: "renderAchievements ac d =
               set_innerHTML ''achievements-grid'' (achievements_markup ac) d"
    by (simp add: renderAchievements_def achievements_markup_def Let_def)
  have w1: "renderSkills sk d = Some d' \<longrightarrow>
       map_option el_content (d' ''skills-grid'') = Some (Markup (skills_markup sk))"
    unfolding renderSkills_def by (rule impI) (rule single_markup_content)
  have w2: "renderExperience ex d = Some d' \<longrightarrow>
       map_option el_content (d' ''experience-timeline'') = Some (Markup (experience_markup ex))"
    unfolding renderExperience_def by (rule impI) (rule single_markup_content)
  have w3: "renderProjects pr d = Some d' \<longrightarrow>
       map_option el_content (d' ''projects-grid'') = Some (Markup (projects_markup pr))"
    by (rule impI) (rule projects_grid_content)
  have w4: "renderAchievements ac d = Some d' \<longrightarrow>
       map_option el_content (d' ''achievements-grid'') = Some (Markup (achievements_markup ac))"
    unfolding ach by (rule impI) (rule single_markup_content)
  have prof: "renderProfile pf d = Some d' \<longrightarrow>
      map_option el_content (d' ''hero-name'') = Some (Text (profile_name pf)) \<and>
      map_option el_content (d' ''hero-tagline'') = Some (Text (profile_tagline pf)) \<and>
      map_option el_content (d' ''about-summary'') =
        Some (Text (about_summary (profile_about pf))) \<and>
      map_option el_content (d' ''about-description'') =
        Some (Text (about_description (profile_about pf))) \<and>
      map_option el_content (d' ''about-cta'') = Some (Text (about_cta (profile_about pf))) \<and>
      map_option el_content (d' ''hero-roles'') =
        Some (Markup (roles_markup (profile_roles pf))) \<and>
      map_option el_content (d' ''about-stats'') =
        Some (Markup (stats_markup (profile_stats pf)))"
    by (intro impI conjI) (erule profile_contents)+
  note m = in_modal_markup(2,3) [of q]
  from prof w1 w2 w3 w4 roles stats skills exps projs achs m modal
  show ?thesis
    by (intro conjI) assumption+
qed

theorem text_fields_verbatim_witness:
  \<open>renderExperience one_highlight shell_dom =
     Some (shell_dom(''experience-timeline'' \<mapsto>
             with_markup (experience_markup one_highlight) blank_element)) \<and>
   sublist ''<li class="timeline-highlight">a</li><li class="timeline-highlight">b</li>''
     (experience_markup one_highlight) \<and>
   sublist ''Developer'' (experience_markup one_highlight)\<close>
proof -
  let ?x = "hd (experiences one_highlight)"
  have x: "?x \<in> set (experiences one_highlight)"
    by (simp add: one_highlight_def)
  have h: \<open>''a</li><li class="timeline-highlight">b'' \<in> set (exp_highlights ?x)\<close>
    by (simp add: one_highlight_def)
  have r: "exp_role ?x = ''Developer''"
    by (simp add: one_highlight_def)
  from text_fields_verbatim [of demo_profile shell_dom shell_dom demo_skills one_highlight
      demo_projects demo_achievements "hd (projects demo_projects)"]
  have \<open>\<forall>x \<in> set (experiences one_highlight).
      sublist (exp_period x) (experience_markup one_highlight) \<and>
      sublist (exp_role x) (experience_markup one_highlight) \<and>
      sublist (exp_company x) (experience_markup one_highlight) \<and>
      sublist (exp_description x) (experience_markup one_highlight) \<and>
      (\<forall>h \<in> set (exp_highlights x).
         sublist (''<li class="timeline-highlight">'' @ h @ ''</li>'')
           (experience_markup one_highlight))\<close>
    by (elim conjE)
  with x h r
  have \<open>sublist (''<li class="timeline-highlight">'' @
                 ''a</li><li class="timeline-highlight">b'' @ ''</li>'')
          (experience_markup one_highlight)\<close>
    and "sublist ''Developer'' (experience_markup one_highlight)"
    by metis+
  then show ?thesis
    using shell_dom_timeline
    by (simp add: renderExperience_def set_innerHTML_def update_element_Some)
qed

section \<open>Addresses built from the data\<close>

lemma url_safe_percent_escape: "url_safe (percent_escape c)"
proof -
  have "list_all (\<lambda>n. uri_unreserved (hex_digit n)) [0..<16]"
    by code_simp
  then have hex: "uri_unreserved (hex_digit n)" if "n < 16" for n
    using that by (simp add: list_all_iff)
  have "(of_char c :: nat) < 256"
    by simp
  then have "(of_char c :: nat) div 16 < 16" and "(of_char c :: nat) mod 16 < 16"
    by presburger+
  then have "uri_unreserved (hex_digit (of_char c div 16))"
    and "uri_unreserved (hex_digit (of_char c mod 16))"
    by (simp_all add: hex)
  then show ?thesis
    by (simp add: url_safe_def percent_escape_def)
qed

lemma url_safe_append: "url_safe (a @ b) = (url_safe a \<and> url_safe b)"
  by (simp add: url_safe_def)

lemma url_safe_encode: "url_safe (encodeURIComponent t)"
proof (induction t)
  case Nil
  show ?case by (simp add: encodeURIComponent_def url_safe_def)
next
  case (Cons c t)
  have "encodeURIComponent (c # t) =
          (if uri_unreserved c then [c] else percent_escape c) @ encodeURIComponent t"
    by (simp add: encodeURIComponent_def)
  moreover have "url_safe (if uri_unreserved c then [c] else percent_escape c)"
    using url_safe_percent_escape by (simp add: url_safe_def)
  ultimately show ?case
    using Cons.IH by (simp add: url_safe_append)
qed

lemma whatsapp_message_value:
  "whatsapp_message =
     ''Hi%20Atilla%2C%20I%20saw%20your%20portfolio%20and%20I'' @ sq @ ''d%20like%20to%20connect!''"
  unfolding whatsapp_message_def sq_def by code_simp

lemma encode_spaced: "encodeURIComponent ''a b@x.y'' = ''a%20b%40x.y''"
  by code_simp


lemma sublist_join_mem:
  assumes "b \<in> set bs" and "sublist x b"
  shows "sublist x (join bs)"
  using sublist_join_map [of b bs x "\<lambda>y. y"] assms by simp

lemma push_if_truthy: "v = Some s \<Longrightarrow> s \<noteq> [] \<Longrightarrow> push_if v f = [f s]"
  by (simp add: push_if_def)

lemma mailto_in_email_button:
  \<open>sublist (''href="mailto:'' @ e @ ''?subject=Portfolio Inquiry"'') (email_button e)\<close>
  unfolding sublist_def email_button_def
  by (rule exI [of _ "ind 12 @ ''<a ''"], rule exI) simp

lemma mailto_in_footer_email:
  \<open>sublist (''href="mailto:'' @ e @ ''"'') (footer_email e)\<close>
  unfolding sublist_def footer_email_def
  by (rule exI [of _ "''<a ''"], rule exI) simp

lemma wa_in_whatsapp_button:
  \<open>sublist (''href="https://wa.me/'' @ w @ ''?text='' @ whatsapp_message @ ''"'')
     (whatsapp_button w)\<close>
  unfolding sublist_def whatsapp_button_def
  by (rule exI [of _ "ind 12 @ ''<a ''"], rule exI) simp

lemma href_in_buttons:
  \<open>sublist (''href="'' @ u @ ''"'') (linkedin_button u)\<close>
  \<open>sublist (''href="'' @ u @ ''"'') (github_button u)\<close>
  unfolding sublist_def linkedin_button_def github_button_def
  by (rule exI [of _ "ind 12 @ ''<a ''"], rule exI, simp)+

lemma href_in_footer:
  \<open>sublist (''href="'' @ u @ ''"'') (footer_linkedin u)\<close>
  \<open>sublist (''href="'' @ u @ ''"'') (footer_github u)\<close>
  \<open>sublist (''href="'' @ u @ ''"'') (footer_instagram u)\<close>
  unfolding sublist_def footer_linkedin_def footer_github_def footer_instagram_def
  by (rule exI [of _ "''<a ''"], rule exI, simp)+

lemma href_in_modal_link:
  \<open>sublist (''href="'' @ u @ ''"'') (modal_github_link u)\<close>
  \<open>sublist (''href="'' @ u @ ''"'') (modal_demo_link u)\<close>
  unfolding sublist_def modal_github_link_def modal_demo_link_def
  by (rule exI [of _ "ind 24 @ ''<a ''"], rule exI, simp)+

lemma sublist_here2: "sublist (x @ y) (x @ y @ ss)"
  by (metis append.assoc sublist_here)

lemma placeholder_in_card:
  "sublist (''?text='' @ encodeURIComponent (project_title q) @ sq) (project_card q)"
proof -
  have "sublist (card_placeholder_url (project_title q) @ sq) (project_card q)"
    unfolding project_card_def
    by (rule sublist_here2 | rule sublist_skip)+
  moreover have "sublist (''?text='' @ encodeURIComponent (project_title q) @ sq)
                   (card_placeholder_url (project_title q) @ sq)"
    unfolding sublist_def card_placeholder_url_def
    by (rule exI [of _ "''https://via.placeholder.com/400x200/1E3A5F/00D4FF''"],
        rule exI [of _ "[]"]) simp
  ultimately show ?thesis
    by (rule sublist_trans [rotated])
qed

lemma placeholder_in_modal:
  "sublist (''?text='' @ encodeURIComponent (project_title q) @ sq) (modal_markup q)"
proof -
  have "sublist (modal_placeholder_url (project_title q) @ sq) (modal_markup q)"
    unfolding modal_markup_def
    by (rule sublist_here2 | rule sublist_skip)+
  moreover have "sublist (''?text='' @ encodeURIComponent (project_title q) @ sq)
                   (modal_placeholder_url (project_title q) @ sq)"
    unfolding sublist_def modal_placeholder_url_def
    by (rule exI [of _ "''https://via.placeholder.com/800x300/1E3A5F/00D4FF''"],
        rule exI [of _ "[]"]) simp
  ultimately show ?thesis
    by (rule sublist_trans [rotated])
qed

lemma modal_links_in_modal: "sublist (modal_links (project_links q)) (modal_markup q)"
  unfolding modal_markup_def
  by (rule sublist_here | rule sublist_skip)+

lemma github_in_modal_links:
  assumes "links_github l = Some g" and "g \<noteq> []"
  shows "sublist (modal_github_link g) (modal_links l)"
proof -
  have "modal_links l =
          (ind 16 @ ''<div class=\"modal-links\">'' @ ind 20) @ modal_github_link g @
          (ind 20 @ join (push_if (links_demo l) modal_demo_link) @ ind 16 @ ''</div>'' @ ind 12)"
    using assms by (simp add: modal_links_def truthy_def push_if_truthy join_def)
  then show ?thesis
    by (simp only: sublist_appendI)
qed

lemma demo_in_modal_links:
  assumes "links_demo l = Some g" and "g \<noteq> []"
  shows "sublist (modal_demo_link g) (modal_links l)"
proof -
  have "modal_links l =
          (ind 16 @ ''<div class=\"modal-links\">'' @ ind 20 @
             join (push_if (links_github l) modal_github_link) @ ind 20) @ modal_demo_link g @
          (ind 16 @ ''</div>'' @ ind 12)"
    using assms by (simp add: modal_links_def truthy_def push_if_truthy join_def)
  then show ?thesis
    by (simp only: sublist_appendI)
qed


lemma shell_dom_contact: "shell_dom ''contact-buttons'' = Some blank_element"
  by (simp add: shell_dom_def shell_ids_def)

text \<open>
  Claim C5 as stated fails: the e-mail address is written into the \<^verbatim>\<open>mailto:\<close> link as
  it is. For the address \<^verbatim>\<open>a b@x.y\<close> the link holds the space, where the
  percent-encoded form would be \<^verbatim>\<open>a%20b%40x.y\<close>.
\<close>

theorem email_link_not_encoded:
  \<open>renderContactButtons spaced_social ''cv.pdf'' shell_dom =
     Some (shell_dom(''contact-buttons'' \<mapsto>
       with_markup
         (ind 12 @ ''<a href="mailto:a b@x.y?subject=Portfolio Inquiry" class="contact-btn email">'' @
          ind 16 @ ''<i class="fas fa-envelope"></i>'' @
          ind 16 @ ''<span>Email Me</span>'' @
          ind 12 @ ''</a>'' @
          ind 8)
         blank_element)) \<and>
   encodeURIComponent ''a b@x.y'' = ''a%20b%40x.y''\<close>
  using shell_dom_contact encode_spaced
  by (simp add: renderContactButtons_def set_innerHTML_def update_element_Some
      contact_buttons_def spaced_social_def push_if_def join_def email_button_def)

text \<open>
  Claim C5, amended. Two components are percent-encoded with \<^verbatim>\<open>encodeURIComponent\<close>,
  whose result holds only unreserved characters and percent signs: the project title in the
  placeholder-image address of the card and of the modal, and the fixed WhatsApp greeting.
  The e-mail address, the WhatsApp number and the external links (LinkedIn, GitHub,
  Instagram, a project's GitHub and demo links) are written into their \<^verbatim>\<open>href\<close> as
  they are.
\<close>

theorem url_components:
  \<open>url_safe (encodeURIComponent t) \<and>
   sublist (''?text='' @ encodeURIComponent (project_title q) @ sq) (project_card q) \<and>
   sublist (''?text='' @ encodeURIComponent (project_title q) @ sq) (modal_markup q) \<and>
   whatsapp_message =
     ''Hi%20Atilla%2C%20I%20saw%20your%20portfolio%20and%20I'' @ sq @
     ''d%20like%20to%20connect!'' \<and>
   (social_email s = Some e \<and> e \<noteq> [] \<longrightarrow>
      sublist (''href="mailto:'' @ e @ ''?subject=Portfolio Inquiry"'') (join (contact_buttons s)) \<and>
      sublist (''href="mailto:'' @ e @ ''"'') (join (footer_links s))) \<and>
   (social_whatsapp s = Some w \<and> w \<noteq> [] \<longrightarrow>
      sublist (''href="https://wa.me/'' @ w @ ''?text='' @ whatsapp_message @ ''"'')
        (join (contact_buttons s))) \<and>
   (social_linkedin s = Some l \<and> l \<noteq> [] \<longrightarrow>
      sublist (''href="'' @ l @ ''"'') (join (contact_buttons s)) \<and>
      sublist (''href="'' @ l @ ''"'') (join (footer_links s))) \<and>
   (social_github s = Some g \<and> g \<noteq> [] \<longrightarrow>
      sublist (''href="'' @ g @ ''"'') (join (contact_buttons s)) \<and>
      sublist (''href="'' @ g @ ''"'') (join (footer_links s))) \<and>
   (social_instagram s = Some i \<and> i \<noteq> [] \<longrightarrow>
      sublist (''href="'' @ i @ ''"'') (join (footer_links s))) \<and>
   (links_github (project_links q) = Some pg \<and> pg \<noteq> [] \<longrightarrow>
      sublist (''href="'' @ pg @ ''"'') (modal_markup q)) \<and>
   (links_demo (project_links q) = Some pd \<and> pd \<noteq> [] \<longrightarrow>
      sublist (''href="'' @ pd @ ''"'') (modal_markup q))\<close>
proof -
  have email: \<open>sublist (''href="mailto:'' @ e @ ''?subject=Portfolio Inquiry"'')
                  (join (contact_buttons s)) \<and>
                sublist (''href="mailto:'' @ e @ ''"'') (join (footer_links s))\<close>
    if "social_email s = Some e \<and> e \<noteq> []"
  proof -
    from that have "email_button e \<in> set (contact_buttons s)"
      and "footer_email e \<in> set (footer_links s)"
      by (simp_all add: contact_buttons_def footer_links_def push_if_truthy)
    then show ?thesis
      using mailto_in_email_button mailto_in_footer_email by (blast intro: sublist_join_mem)
  qed
  have whatsapp: \<open>sublist (''href="https://wa.me/'' @ w @ ''?text='' @ whatsapp_message @ ''"'')
                   (join (contact_buttons s))\<close>
    if "social_whatsapp s = Some w \<and> w \<noteq> []"
  proof -
    from that have "whatsapp_button w \<in> set (contact_buttons s)"
      by (simp add: contact_buttons_def push_if_truthy)
    then show ?thesis
      using wa_in_whatsapp_button by (rule sublist_join_mem)
  qed
  have linkedin: \<open>sublist (''href="'' @ l @ ''"'') (join (contact_buttons s)) \<and>
                   sublist (''href="'' @ l @ ''"'') (join (footer_links s))\<close>
    if "social_linkedin s = Some l \<and> l \<noteq> []"
  proof -
    from that have "linkedin_button l \<in> set (contact_buttons s)"
      and "footer_linkedin l \<in> set (footer_links s)"
      by (simp_all add: contact_buttons_def footer_links_def push_if_truthy)
    then show ?thesis
      using href_in_buttons(1) href_in_footer(1) by (blast intro: sublist_join_mem)
  qed
  have github: \<open>sublist (''href="'' @ g @ ''"'') (join (contact_buttons s)) \<and>
                 sublist (''href="'' @ g @ ''"'') (join (footer_links s))\<close>
    if "social_github s = Some g \<and> g \<noteq> []"
  proof -
    from that have "github_button g \<in> set (contact_buttons s)"
      and "footer_github g \<in> set (footer_links s)"
      by (simp_all add: contact_buttons_def footer_links_def push_if_truthy)
    then show ?thesis
      using href_in_buttons(2) href_in_footer(2) by (blast intro: sublist_join_mem)
  qed
  have instagram: \<open>sublist (''href="'' @ i @ ''"'') (join (footer_links s))\<close>
    if "social_instagram s = Some i \<and> i \<noteq> []"
  proof -
    from that have "footer_instagram i \<in> set (footer_links s)"
      by (simp add: footer_links_def push_if_truthy)
    then show ?thesis
      using href_in_footer(3) by (rule sublist_join_mem)
  qed
  have pgithub: \<open>sublist (''href="'' @ pg @ ''"'') (modal_markup q)\<close>
    if "links_github (project_links q) = Some pg \<and> pg \<noteq> []"
  proof -
    from that have "sublist (modal_github_link pg) (modal_links (project_links q))"
      by (simp add: github_in_modal_links)
    with href_in_modal_link(1) have \<open>sublist (''href="'' @ pg @ ''"'')
                                       (modal_links (project_links q))\<close>
      by (rule sublist_trans)
    then show ?thesis
      using modal_links_in_modal by (rule sublist_trans)
  qed
  have pdemo: \<open>sublist (''href="'' @ pd @ ''"'') (modal_markup q)\<close>
    if "links_demo (project_links q) = Some pd \<and> pd \<noteq> []"
  proof -
    from that have "sublist (modal_demo_link pd) (modal_links (project_links q))"
      by (simp add: demo_in_modal_links)
    with href_in_modal_link(2) have \<open>sublist (''href="'' @ pd @ ''"'')
                                       (modal_links (project_links q))\<close>
      by (rule sublist_trans)
    then show ?thesis
      using modal_links_in_modal by (rule sublist_trans)
  qed
  note facts = url_safe_encode [of t] placeholder_in_card [of q] placeholder_in_modal [of q]
    whatsapp_message_value email [THEN conjunct1] email [THEN conjunct2] whatsapp
    linkedin [THEN conjunct1] linkedin [THEN conjunct2]
    github [THEN conjunct1] github [THEN conjunct2] instagram pgithub pdemo
  show ?thesis
    by (intro conjI impI) (erule facts | rule facts)+
qed

theorem url_components_witness:
  \<open>social_email spaced_social = Some ''a b@x.y'' \<and>
   sublist (''href="mailto:'' @ ''a b@x.y'' @ ''?subject=Portfolio Inquiry"'')
     (join (contact_buttons spaced_social)) \<and>
   url_safe (encodeURIComponent ''a b@x.y'')\<close>
proof -
  have e: "social_email spaced_social = Some ''a b@x.y'' \<and> ''a b@x.y'' \<noteq> []"
    by (simp add: spaced_social_def)
  from url_components [of "''a b@x.y''" "hd (projects demo_projects)" spaced_social
      "''a b@x.y''" "[]" "[]" "[]" "[]" "[]" "[]"] e
  show ?thesis
    by blast
qed

section \<open>The tech stack on the card and in the modal\<close>











end
